theory Spec2Isabelle
  imports Complex_Main
begin

section \<open>Conventions of the embedding\<close>

text \<open>
  The repository is Python on top of NumPy, scikit-learn and TensorFlow. The embedding
  keeps the arithmetic and the control flow of the repository's own functions and takes
  everything the libraries decide (the trained network, the random test data, the
  TensorFlow converter and interpreter) as explicit parameters.

  A Python \<open>float\<close> (IEEE double) is read as a real number: \<open>np.log2\<close> is \<open>log 2\<close>,
  \<open>2 ** x\<close> is \<open>2 powr x\<close>, and no rounding takes place. The embedding therefore decides
  nothing that hangs on the last bits of a floating-point result, such as whether a
  decoded frequency equals a bin edge exactly, and no such statement is made below.
  Where NumPy would go on with an infinity or a NaN, the model stops with an error value
  instead, since the reals have no such elements. Every Python exception is a value of
  the type \<open>error\<close>.
\<close>

datatype error =
    ValueError
  | ZeroDivisionError
  | IndexError
  | FloatDomain
  | FileNotFoundError
  | ExternalError string

section \<open>The pitch codec (pitch\_detection/train\_pitch\_model.py)\<close>

text \<open>Python's \<open>int(x)\<close> on a float truncates towards zero.\<close>

definition py_int :: "real \<Rightarrow> int" where
  "py_int x = (if 0 \<le> x then \<lfloor>x\<rfloor> else \<lceil>x\<rceil>)"

text \<open>
  \<open>pitch_to_bin(pitch_hz, min_pitch, max_pitch, num_bins)\<close>. The range test comes first
  and answers \<open>-1\<close>. Past it \<open>min_pitch \<le> pitch_hz \<le> max_pitch\<close> holds, so a non-positive
  \<open>min_pitch\<close> makes \<open>np.log2(min_pitch)\<close> infinite or NaN and \<open>max_pitch = min_pitch\<close>
  makes the quotient \<open>0 / 0\<close>; in both cases the argument of \<open>int\<close> is NaN and Python
  raises \<open>ValueError\<close>.
\<close>

definition pitch_to_bin :: "real \<Rightarrow> real \<Rightarrow> real \<Rightarrow> int \<Rightarrow> error + int" where
  "pitch_to_bin pitch_hz min_pitch max_pitch num_bins =
     (if pitch_hz < min_pitch \<or> pitch_hz > max_pitch then Inr (- 1)
      else if min_pitch \<le> 0 \<or> max_pitch = min_pitch then Inl ValueError
      else
        let log_min = log 2 min_pitch;
            log_max = log 2 max_pitch;
            log_pitch = log 2 pitch_hz;
            bin_idx = py_int ((log_pitch - log_min) / (log_max - log_min) * real_of_int num_bins)
        in Inr (min bin_idx (num_bins - 1)))"

text \<open>
  \<open>bin_to_pitch(bin_idx, min_pitch, max_pitch, num_bins)\<close>. There is no range test on
  \<open>bin_idx\<close>. \<open>bin_idx / num_bins\<close> is Python's true division of two integers, which raises
  \<open>ZeroDivisionError\<close> for \<open>num_bins = 0\<close>. With a non-positive bound a logarithm is
  infinite or NaN and NumPy returns a non-finite number or \<open>0.0\<close> without raising; the model
  answers \<open>FloatDomain\<close> there.
\<close>

definition bin_to_pitch :: "int \<Rightarrow> real \<Rightarrow> real \<Rightarrow> int \<Rightarrow> error + real" where
  "bin_to_pitch bin_idx min_pitch max_pitch num_bins =
     (if min_pitch \<le> 0 \<or> max_pitch \<le> 0 then Inl FloatDomain
      else if num_bins = 0 then Inl ZeroDivisionError
      else
        let log_min = log 2 min_pitch;
            log_max = log 2 max_pitch;
            log_pitch = log_min + (real_of_int bin_idx / real_of_int num_bins) * (log_max - log_min)
        in Inr (2 powr log_pitch))"

text \<open>
  The argument of \<open>int\<close> in \<open>pitch_to_bin\<close> under the default parameters: the position of
  a frequency on the bin axis. It only names that expression for the proofs.
\<close>

definition bin_position :: "real \<Rightarrow> real" where
  "bin_position hz = (log 2 hz - log 2 50) / (log 2 500 - log 2 50) * 360"

section \<open>Evaluation metrics (utils/evaluation.py)\<close>

subsection \<open>NumPy reductions\<close>

text \<open>
  \<open>np.mean\<close> of a one-dimensional array. On an empty array NumPy answers NaN (with a
  warning, no exception); \<open>None\<close> stands for that NaN. \<open>np.mean\<close> of a Boolean array counts
  \<open>True\<close> as \<open>1.0\<close>. Multiplying NaN by 100 leaves NaN.
\<close>

definition np_mean :: "real list \<Rightarrow> real option" where
  "np_mean xs = (if xs = [] then None else Some (sum_list xs / real (length xs)))"

definition np_mean_bool :: "bool list \<Rightarrow> real option" where
  "np_mean_bool bs = np_mean (map of_bool bs)"

definition percent :: "real option \<Rightarrow> real option" where
  "percent m = map_option (\<lambda>v. v * 100) m"

subsection \<open>Pitch mode: \<open>evaluate_pitch_model\<close>\<close>

record results_common =
  model_type :: string
  test_samples :: nat

record pitch_results = results_common +
  rpa_50_cents :: "real option"
  gross_pitch_error :: "real option"
  mae_cents :: "real option"

text \<open>
  Line 69: \<open>cents_diff = np.abs(predictions - ground_truth)\<close>. \<open>predictions\<close> holds the
  \<open>argmax\<close> of each network output (a natural number), \<open>ground_truth\<close> the true pitch in
  Hz. Both arrays are filled by the same loop and have the same length.
\<close>

definition cents_diff :: "nat list \<Rightarrow> real list \<Rightarrow> real list" where
  "cents_diff predictions ground_truth =
     map (\<lambda>(p, t). \<bar>real p - t\<bar>) (zip predictions ground_truth)"

text \<open>Lines 64 to 81: the metrics and the result dictionary, from the two arrays.\<close>

definition pitch_metrics :: "nat \<Rightarrow> nat list \<Rightarrow> real list \<Rightarrow> pitch_results" where
  "pitch_metrics n predictions ground_truth =
     (let cd = cents_diff predictions ground_truth;
          rpa_50 = percent (np_mean_bool (map (\<lambda>d. d < 50) cd));
          gpe = percent (np_mean_bool (map (\<lambda>d. d > 100) cd));
          mae = np_mean cd
      in \<lparr>model_type = ''pitch_detection'', test_samples = n,
          rpa_50_cents = rpa_50, gross_pitch_error = gpe, mae_cents = mae\<rparr>)"

text \<open>
  \<open>evaluate_pitch_model\<close>. The loop runs \<open>test_samples = 100\<close> times; iteration \<open>i\<close> draws
  the true pitch \<open>200.0 + np.random.randn() * 50\<close> and asks the network for a prediction.
  Both are outside the repository, so the parameter \<open>sample i\<close> is the pair
  \<open>(pred_pitch, true_pitch)\<close> that iteration \<open>i\<close> appends.
\<close>

definition evaluate_pitch_model :: "(nat \<Rightarrow> nat \<times> real) \<Rightarrow> pitch_results" where
  "evaluate_pitch_model sample =
     (let n = 100;
          predictions = map (\<lambda>i. fst (sample i)) [0..<n];
          ground_truth = map (\<lambda>i. snd (sample i)) [0..<n]
      in pitch_metrics n predictions ground_truth)"

text \<open>
  The two readings of the specification that the code is compared with: the error of one
  sample in cents, and the samples the specification calls valid (both frequencies
  positive).
\<close>

definition spec_cents_error :: "real \<Rightarrow> real \<Rightarrow> real" where
  "spec_cents_error pred_hz true_hz = \<bar>1200 * log 2 (pred_hz / true_hz)\<bar>"

definition spec_valid_sample :: "nat \<times> real \<Rightarrow> bool" where
  "spec_valid_sample s = (0 < fst s \<and> 0 < snd s)"

text \<open>
  The error the code computes for iteration \<open>i\<close>, and two runs of the loop used below:
  every prediction 400 against a true pitch of 200 Hz, and a run whose first prediction is
  0 while all the others hit the true pitch of 200 Hz.
\<close>

definition sample_error :: "(nat \<Rightarrow> nat \<times> real) \<Rightarrow> nat \<Rightarrow> real" where
  "sample_error sample i = \<bar>real (fst (sample i)) - snd (sample i)\<bar>"

definition octave_off :: "nat \<Rightarrow> nat \<times> real" where
  "octave_off i = (400, 200)"

definition one_invalid :: "nat \<Rightarrow> nat \<times> real" where
  "one_invalid i = (if i = 0 then (0, 200) else (200, 200))"

subsection \<open>Classification mode: \<open>evaluate_swar_classifier\<close>\<close>

definition swar_classes :: "string list" where
  "swar_classes =
     [''Sa'', ''Re(k)'', ''Re'', ''Ga(k)'', ''Ga'', ''Ma'',
      ''Ma(t)'', ''Pa'', ''Dha(k)'', ''Dha'', ''Ni(k)'', ''Ni'']"

text \<open>
  The two scikit-learn calls are made without a \<open>labels\<close> argument, so scikit-learn takes
  as labels the sorted distinct values that occur in either array
  (\<open>sklearn.utils.multiclass.unique_labels\<close>). \<open>confusion_matrix(y_true, y_pred)\<close> then has
  one row and one column per such label, entry \<open>[i][j]\<close> counting the samples whose true
  class is label \<open>i\<close> and whose predicted class is label \<open>j\<close>.
\<close>

definition sk_unique_labels :: "nat list \<Rightarrow> nat list \<Rightarrow> nat list" where
  "sk_unique_labels y_true y_pred = sort (remdups (y_true @ y_pred))"

definition sk_confusion_matrix :: "nat list \<Rightarrow> nat list \<Rightarrow> nat list list" where
  "sk_confusion_matrix y_true y_pred =
     (let labels = sk_unique_labels y_true y_pred
      in map (\<lambda>t. map (\<lambda>p. count_list (zip y_true y_pred) (t, p)) labels) labels)"

text \<open>
  \<open>classification_report(y_true, y_pred, target_names=..., output_dict=True,
  zero_division=0)\<close>. Without \<open>labels\<close>, a number of target names different from the number
  of labels found raises \<open>ValueError\<close>. Otherwise the dictionary has one entry per target
  name, in label order, and the three summary entries. A quotient with denominator zero
  is \<open>0\<close> (\<open>zero_division=0\<close>).
\<close>

record class_metrics =
  precision :: real
  recall :: real
  f1_score :: real
  support :: nat

record report =
  per_class :: "(string \<times> class_metrics) list"
  accuracy :: real
  macro_avg :: class_metrics
  weighted_avg :: class_metrics

definition zero_division :: "real \<Rightarrow> real \<Rightarrow> real" where
  "zero_division a b = (if b = 0 then 0 else a / b)"

definition sk_class_metrics :: "nat list \<Rightarrow> nat list \<Rightarrow> nat \<Rightarrow> class_metrics" where
  "sk_class_metrics y_true y_pred c =
     (let tp = count_list (zip y_true y_pred) (c, c);
          p = zero_division (real tp) (real (count_list y_pred c));
          r = zero_division (real tp) (real (count_list y_true c))
      in \<lparr>precision = p, recall = r, f1_score = zero_division (2 * p * r) (p + r),
          support = count_list y_true c\<rparr>)"

definition sk_average :: "real list \<Rightarrow> class_metrics list \<Rightarrow> class_metrics" where
  "sk_average weights ms =
     (let avg = (\<lambda>f. zero_division (sum_list (map (\<lambda>(w, m). w * f m) (zip weights ms)))
                                    (sum_list weights))
      in \<lparr>precision = avg precision, recall = avg recall, f1_score = avg f1_score,
          support = sum_list (map support ms)\<rparr>)"

definition sk_classification_report ::
  "nat list \<Rightarrow> nat list \<Rightarrow> string list \<Rightarrow> error + report" where
  "sk_classification_report y_true y_pred target_names =
     (let labels = sk_unique_labels y_true y_pred in
      if length labels \<noteq> length target_names then Inl ValueError
      else
        let ms = map (sk_class_metrics y_true y_pred) labels
        in Inr \<lparr>per_class = zip target_names ms,
                accuracy = zero_division
                  (real (length (filter (\<lambda>(t, p). t = p) (zip y_true y_pred))))
                  (real (length y_true)),
                macro_avg = sk_average (map (\<lambda>m. 1) ms) ms,
                weighted_avg = sk_average (map (\<lambda>m. real (support m)) ms) ms\<rparr>)"

record swar_results = results_common +
  top1_accuracy :: "real option"
  classification_report :: report
  confusion_matrix :: "nat list list"

text \<open>
  Lines 143 to 166: the metrics and the result dictionary, from the two arrays, which the
  loop fills together and which therefore have the same length. An exception of
  \<open>classification_report\<close> leaves the function before the confusion matrix is computed.
\<close>

definition swar_metrics :: "nat \<Rightarrow> nat list \<Rightarrow> nat list \<Rightarrow> error + swar_results" where
  "swar_metrics n predictions ground_truth =
     (let top1_acc = percent (np_mean_bool (map (\<lambda>(p, t). p = t) (zip predictions ground_truth)))
      in case sk_classification_report ground_truth predictions swar_classes of
           Inl e \<Rightarrow> Inl e
         | Inr rep \<Rightarrow>
             let cm = sk_confusion_matrix ground_truth predictions
             in Inr \<lparr>model_type = ''swar_classification'', test_samples = n,
                     top1_accuracy = top1_acc, classification_report = rep,
                     confusion_matrix = cm\<rparr>)"

text \<open>
  \<open>evaluate_swar_classifier\<close>. The loop runs \<open>test_samples = 120\<close> times; iteration \<open>i\<close> has
  the true class \<open>i % 12\<close> and appends the network's \<open>argmax\<close>, the parameter
  \<open>pred_class i\<close>.
\<close>

definition evaluate_swar_classifier :: "(nat \<Rightarrow> nat) \<Rightarrow> error + swar_results" where
  "evaluate_swar_classifier pred_class =
     (let n = 120;
          predictions = map pred_class [0..<n];
          ground_truth = map (\<lambda>i. i mod 12) [0..<n]
      in swar_metrics n predictions ground_truth)"

text \<open>
  What the specification asks of the confusion matrix: twelve rows and twelve columns in
  the order of \<open>swar_classes\<close>, entry \<open>[t][p]\<close> counting the samples with true class \<open>t\<close>
  and predicted class \<open>p\<close>. And what it asks of the results when every prediction is
  right: accuracy 100, a twelve by twelve matrix that is zero off the diagonal, and an F1
  score of 1 under each of the twelve class names.
\<close>

definition spec_confusion_matrix :: "nat list \<Rightarrow> nat list \<Rightarrow> nat list list" where
  "spec_confusion_matrix y_true y_pred =
     map (\<lambda>t. map (\<lambda>p. count_list (zip y_true y_pred) (t, p)) [0..<12]) [0..<12]"

definition spec_perfect_results :: "swar_results \<Rightarrow> bool" where
  "spec_perfect_results r =
     (top1_accuracy r = Some 100
      \<and> length (confusion_matrix r) = 12
      \<and> list_all (\<lambda>row. length row = 12) (confusion_matrix r)
      \<and> list_all (\<lambda>t. list_all (\<lambda>p. t = p \<or> confusion_matrix r ! t ! p = 0) [0..<12]) [0..<12]
      \<and> map fst (per_class (classification_report r)) = swar_classes
      \<and> list_all (\<lambda>m. f1_score m = 1) (map snd (per_class (classification_report r))))"

section \<open>Model conversion (utils/tflite\_converter.py)\<close>

subsection \<open>What TensorFlow and the file system provide\<close>

text \<open>
  A file is a sequence of bytes, the file system a map from paths to files. Standard
  output is the list of printed lines, oldest first; a line that shows a number keeps the
  number (the format \<open>:.2f\<close> or \<open>:.1f\<close> only rounds what is displayed). The world also
  records, for every call of \<open>interpreter.invoke()\<close>, the input tensor the interpreter
  held at that call.
\<close>

type_synonym bytes = "char list"

datatype dtype = Float32 | Float16 | Int8

record tensor_details =
  shape :: "nat list"
  dtype :: dtype

record tensor = tensor_details +
  elems :: "real list"

datatype out =
    Msg string
  | Stat string real
  | Shape_line string "nat list"
  | Dtype_line string dtype

record world =
  files :: "string \<rightharpoonup> bytes"
  printed :: "out list"
  invoked :: "tensor list"

definition py_print :: "out \<Rightarrow> world \<Rightarrow> world" where
  "py_print l w = w\<lparr>printed := printed w @ [l]\<rparr>"

text \<open>
  The settings of a \<open>tf.lite.TFLiteConverter\<close> that the script touches, with the values a
  fresh converter has.
\<close>

datatype optimize_opt = DEFAULT

datatype ops_set = TFLITE_BUILTINS | TFLITE_BUILTINS_INT8

record converter =
  optimizations :: "optimize_opt list"
  supported_ops :: "ops_set list"
  supported_types :: "dtype list"
  inference_input_type :: dtype
  inference_output_type :: dtype

definition from_keras_model :: converter where
  "from_keras_model =
     \<lparr>optimizations = [], supported_ops = [TFLITE_BUILTINS], supported_types = [],
      inference_input_type = Float32, inference_output_type = Float32\<rparr>"

text \<open>
  A loaded interpreter: the details of its first input and first output tensor;
  \<open>set_tensor\<close>, which accepts a tensor as the input or raises (TensorFlow raises
  \<open>ValueError\<close> for a tensor whose element type or shape is not the declared one); and
  \<open>invoke\<close>, which stands for \<open>interpreter.invoke()\<close> on the tensor that was set, followed
  by \<open>get_tensor\<close> of the first output.
  The library functions are parameters: \<open>load_model\<close> reads a trained model of some type
  \<open>'m\<close> from a file, \<open>convert\<close> is \<open>TFLiteConverter.convert\<close> under given settings,
  \<open>interpreter\<close> is \<open>tf.lite.Interpreter\<close> with \<open>allocate_tensors\<close>, and \<open>randn\<close> is
  \<open>np.random.randn\<close> for a shape.
\<close>

record interp =
  input_details :: tensor_details
  output_details :: tensor_details
  set_tensor :: "tensor \<Rightarrow> error + unit"
  invoke :: "tensor \<Rightarrow> error + tensor"

record 'm libs =
  load_model :: "bytes \<Rightarrow> error + 'm"
  convert :: "converter \<Rightarrow> 'm \<Rightarrow> error + bytes"
  interpreter :: "bytes \<Rightarrow> error + interp"
  randn :: "nat list \<Rightarrow> real list"

subsection \<open>\<open>convert_to_tflite\<close>\<close>

text \<open>Lines 26 to 43: the converter settings chosen by \<open>optimize\<close> and \<open>quantize\<close>.\<close>

definition converter_settings :: "bool \<Rightarrow> string option \<Rightarrow> converter" where
  "converter_settings optimize quantize =
     (let c0 = from_keras_model;
          c1 = (if optimize then c0\<lparr>optimizations := [DEFAULT]\<rparr> else c0)
      in if quantize = Some ''int8'' then
           c1\<lparr>supported_ops := [TFLITE_BUILTINS_INT8],
              inference_input_type := Int8, inference_output_type := Int8\<rparr>
         else if quantize = Some ''float16'' then c1\<lparr>supported_types := [Float16]\<rparr>
         else c1)"

definition settings_lines :: "bool \<Rightarrow> string option \<Rightarrow> out list" where
  "settings_lines optimize quantize =
     (if optimize then [Msg ''Optimization enabled''] else []) @
     (if quantize = Some ''int8'' then [Msg ''INT8 quantization enabled'']
      else if quantize = Some ''float16'' then [Msg ''Float16 quantization enabled'']
      else [])"

text \<open>
  Lines 57 to 59, from the two byte counts. Both sizes are divided by \<open>1024 * 1024\<close>; the
  quotient of the two raises \<open>ZeroDivisionError\<close> when the original file is empty.
\<close>

record statistics =
  original_size :: real
  tflite_size :: real
  compression_ratio :: real

definition conversion_statistics :: "nat \<Rightarrow> nat \<Rightarrow> error + statistics" where
  "conversion_statistics st_size len_tflite =
     (let original = real st_size / (1024 * 1024);
          tflite = real len_tflite / (1024 * 1024)
      in if original = 0 then Inl ZeroDivisionError
         else Inr \<lparr>original_size = original, tflite_size = tflite,
                   compression_ratio = (1 - tflite / original) * 100\<rparr>)"

text \<open>
  \<open>convert_to_tflite(model_path, output_path, optimize, quantize)\<close>. The result pairs the
  returned bytes, or the exception, with the world the call leaves behind. The size of
  the original is read from the file system after the output file has been written.
\<close>

definition convert_to_tflite ::
  "'m libs \<Rightarrow> string \<Rightarrow> string \<Rightarrow> bool \<Rightarrow> string option \<Rightarrow> world \<Rightarrow> (error + bytes) \<times> world" where
  "convert_to_tflite tf model_path output_path optimize quantize w0 =
     (let w1 = py_print (Msg (''Loading model from: '' @ model_path)) w0 in
      case files w1 model_path of
        None \<Rightarrow> (Inl FileNotFoundError, w1)
      | Some h5 \<Rightarrow>
     (case load_model tf h5 of
        Inl e \<Rightarrow> (Inl e, w1)
      | Inr model \<Rightarrow>
     (let c = converter_settings optimize quantize;
          w2 = fold py_print (settings_lines optimize quantize) w1;
          w3 = py_print (Msg ''Converting model...'') w2 in
      case convert tf c model of
        Inl e \<Rightarrow> (Inl e, w3)
      | Inr tflite_model \<Rightarrow>
     (let w4 = w3\<lparr>files := (files w3)(output_path \<mapsto> tflite_model)\<rparr> in
      case files w4 model_path of
        None \<Rightarrow> (Inl FileNotFoundError, w4)
      | Some original \<Rightarrow>
     (case conversion_statistics (length original) (length tflite_model) of
        Inl e \<Rightarrow> (Inl e, w4)
      | Inr st \<Rightarrow>
          (Inr tflite_model,
           fold py_print
             [Msg ''Conversion complete!'',
              Stat ''Original model size (MB)'' (original_size st),
              Stat ''TFLite model size (MB)'' (tflite_size st),
              Stat ''Compression (%)'' (compression_ratio st),
              Msg (''Output saved to: '' @ output_path)] w4))))))"

subsection \<open>\<open>test_tflite_model\<close> and \<open>main\<close>\<close>

text \<open>
  \<open>test_tflite_model(tflite_path, test_input=None)\<close>. The synthetic input has the
  interpreter's input shape and is always cast to \<open>float32\<close>. Line 100 hands it to
  \<open>set_tensor\<close>; when that raises, line 101 is not reached and no inference is run. The
  output is printed and returned; nothing compares its shape with \<open>output_details\<close>. The
  last print evaluates \<open>output[0][:5]\<close>, which raises \<open>IndexError\<close> unless the output has
  at least two axes and a non-empty first one.
\<close>

definition test_tflite_model ::
  "'m libs \<Rightarrow> string \<Rightarrow> tensor option \<Rightarrow> world \<Rightarrow> (error + tensor) \<times> world" where
  "test_tflite_model tf tflite_path test_input w0 =
     (let w1 = py_print (Msg (''Testing TFLite model: '' @ tflite_path)) w0 in
      case files w1 tflite_path of
        None \<Rightarrow> (Inl FileNotFoundError, w1)
      | Some b \<Rightarrow>
     (case interpreter tf b of
        Inl e \<Rightarrow> (Inl e, w1)
      | Inr it \<Rightarrow>
     (let w2 = fold py_print
             [Msg ''Model Details:'',
              Shape_line ''Input shape'' (shape (input_details it)),
              Dtype_line ''Input type'' (dtype (input_details it)),
              Shape_line ''Output shape'' (shape (output_details it)),
              Dtype_line ''Output type'' (dtype (output_details it))] w1;
          input = (case test_input of
                     Some t \<Rightarrow> t
                   | None \<Rightarrow> \<lparr>shape = shape (input_details it), dtype = Float32,
                               elems = randn tf (shape (input_details it))\<rparr>) in
      case set_tensor it input of
        Inl e \<Rightarrow> (Inl e, w2)
      | Inr accepted \<Rightarrow>
     (let w3 = w2\<lparr>invoked := invoked w2 @ [input]\<rparr> in
      case invoke it input of
        Inl e \<Rightarrow> (Inl e, w3)
      | Inr output \<Rightarrow>
     (let w4 = fold py_print
             [Msg ''Inference test successful!'',
              Shape_line ''Output shape'' (shape output)] w3
      in if length (shape output) < 2 \<or> hd (shape output) = 0
         then (Inl IndexError, w4)
         else (Inr output, py_print (Msg ''Output sample'') w4))))))"

text \<open>
  The command line of \<open>main\<close>: \<open>--model\<close>, \<open>--output\<close>, \<open>--optimize\<close>, \<open>--quantize\<close>
  (\<open>int8\<close>, \<open>float16\<close> or absent) and \<open>--test\<close>.
\<close>

record args =
  arg_model :: string
  arg_output :: string
  arg_optimize :: bool
  arg_quantize :: "string option"
  arg_test :: bool

definition main :: "'m libs \<Rightarrow> args \<Rightarrow> world \<Rightarrow> (error + unit) \<times> world" where
  "main tf a w0 =
     (case convert_to_tflite tf (arg_model a) (arg_output a) (arg_optimize a) (arg_quantize a) w0 of
        (Inl e, w1) \<Rightarrow> (Inl e, w1)
      | (Inr tflite_model, w1) \<Rightarrow>
          if arg_test a then
            (case test_tflite_model tf (arg_output a) None w1 of
               (Inl e, w2) \<Rightarrow> (Inl e, w2)
             | (Inr out_tensor, w2) \<Rightarrow> (Inr (), py_print (Msg ''Next steps:'') w2))
          else (Inr (), py_print (Msg ''Next steps:'') w1))"

text \<open>
  The synthetic input that \<open>test_tflite_model\<close> builds when it is given none, named for
  the statements below.
\<close>

definition synthetic_input :: "'m libs \<Rightarrow> interp \<Rightarrow> tensor" where
  "synthetic_input tf it =
     \<lparr>shape = shape (input_details it), dtype = Float32,
      elems = randn tf (shape (input_details it))\<rparr>"

text \<open>
  A small stand-in for TensorFlow, used to run the functions on concrete inputs. A model
  is a Boolean: whether all its operations exist in pure integer inference (only a file
  with the content \<open>int8 only\<close> loads as such a model). The converter refuses a model that
  is not, when the supported operations are exactly the int8 builtins; otherwise the
  artifact is two bytes that name the input and output element types, and the
  interpreter reads them back. The interpreter declares the input shape \<open>[1, 4]\<close> and the
  output shape \<open>[1, 12]\<close>, accepts as input a tensor of the declared element type and
  shape only, and answers every inference with a tensor of shape \<open>[1, 7]\<close>.
\<close>

definition dtype_code :: "dtype \<Rightarrow> char" where
  "dtype_code d = (case d of Float32 \<Rightarrow> CHR ''f'' | Float16 \<Rightarrow> CHR ''h'' | Int8 \<Rightarrow> CHR ''i'')"

definition code_dtype :: "char \<Rightarrow> dtype" where
  "code_dtype c = (if c = CHR ''i'' then Int8 else if c = CHR ''h'' then Float16 else Float32)"

definition demo_interp :: "dtype \<Rightarrow> dtype \<Rightarrow> interp" where
  "demo_interp din dout =
     \<lparr>input_details = \<lparr>shape = [1, 4], dtype = din\<rparr>,
      output_details = \<lparr>shape = [1, 12], dtype = dout\<rparr>,
      set_tensor = (\<lambda>t. if dtype t = din \<and> shape t = [1, 4] then Inr () else Inl ValueError),
      invoke = (\<lambda>t. Inr \<lparr>shape = [1, 7], dtype = dout, elems = [0, 0, 0, 0, 0, 0, 0]\<rparr>)\<rparr>"

definition demo_libs :: "bool libs" where
  "demo_libs =
     \<lparr>load_model = (\<lambda>b. Inr (b = ''int8 only'')),
      convert = (\<lambda>c m. if supported_ops c = [TFLITE_BUILTINS_INT8] \<and> \<not> m
                         then Inl (ExternalError ''unsupported operation'')
                         else Inr [dtype_code (inference_input_type c),
                                   dtype_code (inference_output_type c)]),
      interpreter = (\<lambda>b. case b of
                         [cin, cout] \<Rightarrow> Inr (demo_interp (code_dtype cin) (code_dtype cout))
                       | _ \<Rightarrow> Inl ValueError),
      randn = (\<lambda>s. [0, 0, 0, 0])\<rparr>"

definition demo_world :: "bytes \<Rightarrow> world" where
  "demo_world h5 = \<lparr>files = [''m.h5'' \<mapsto> h5], printed = [], invoked = []\<rparr>"

definition demo_args :: "bool \<Rightarrow> args" where
  "demo_args t =
     \<lparr>arg_model = ''m.h5'', arg_output = ''m.tflite'', arg_optimize = True,
      arg_quantize = None, arg_test = t\<rparr>"

section \<open>Properties of the pitch codec\<close>

subsection \<open>Arithmetic on the bin axis\<close>

lemma scaled_fraction_le:
  fixes x w n :: real
  assumes "0 < w" "x \<le> w" "0 \<le> n"
  shows "x / w * n \<le> n"
proof -
  have "x / w \<le> 1" using assms by (simp add: divide_le_eq)
  then have "x / w * n \<le> 1 * n" using assms(3) by (rule mult_right_mono)
  then show ?thesis by simp
qed

lemma scaled_fraction_nonneg:
  fixes x w n :: real
  assumes "0 < w" "0 \<le> x" "0 \<le> n"
  shows "0 \<le> x / w * n"
  using assms by simp

lemma log_width_pos: "0 < log 2 500 - log 2 (50::real)"
  by simp

lemma bin_position_bounds:
  assumes "50 \<le> hz" "hz \<le> 500"
  shows "0 \<le> (log 2 hz - log 2 50) / (log 2 500 - log 2 50) * 360"
    and "(log 2 hz - log 2 50) / (log 2 500 - log 2 50) * 360 \<le> 360"
proof -
  have a: "0 \<le> log 2 hz - log 2 50" using assms by simp
  have b: "log 2 hz - log 2 50 \<le> log 2 500 - log 2 50" using assms by simp
  show "0 \<le> (log 2 hz - log 2 50) / (log 2 500 - log 2 50) * 360"
    by (rule scaled_fraction_nonneg[OF log_width_pos a]) simp
  show "(log 2 hz - log 2 50) / (log 2 500 - log 2 50) * 360 \<le> 360"
    by (rule scaled_fraction_le[OF log_width_pos b]) simp
qed

lemma pitch_to_bin_in_range:
  assumes "50 \<le> hz" "hz \<le> 500"
  shows "pitch_to_bin hz 50 500 360 =
    Inr (min \<lfloor>(log 2 hz - log 2 50) / (log 2 500 - log 2 50) * 360\<rfloor> 359)"
proof -
  have "py_int ((log 2 hz - log 2 50) / (log 2 500 - log 2 50) * 360)
      = \<lfloor>(log 2 hz - log 2 50) / (log 2 500 - log 2 50) * 360\<rfloor>"
    unfolding py_int_def using bin_position_bounds(1)[OF assms] by (rule if_P)
  then show ?thesis
    using assms unfolding pitch_to_bin_def Let_def by simp
qed

lemma bin_to_pitch_default:
  "bin_to_pitch b 50 500 360 = Inr (2 powr (log 2 50 + (real_of_int b / 360) * (log 2 500 - log 2 50)))"
  by (simp add: bin_to_pitch_def Let_def)

lemma enc50: "pitch_to_bin 50 50 500 360 = Inr 0"
  by (simp add: pitch_to_bin_def py_int_def)

lemma bin_edge_le_iff:
  assumes "0 < hz"
  shows "(2 powr (log 2 50 + (real_of_int b / 360) * (log 2 500 - log 2 50)) \<le> hz)
       = (real_of_int b \<le> bin_position hz)"
proof -
  define W :: real where "W = log 2 500 - log 2 50"
  define x :: real where "x = log 2 hz - log 2 50"
  have W: "0 < W" unfolding W_def by (rule log_width_pos)
  have "(2 powr (log 2 50 + (real_of_int b / 360) * W) \<le> hz)
      = (log 2 50 + (real_of_int b / 360) * W \<le> log 2 hz)"
    using assms by (simp add: powr_le_iff)
  also have "\<dots> = ((real_of_int b / 360) * W \<le> x)"
    unfolding x_def by linarith
  also have "\<dots> = (real_of_int b \<le> x / W * 360)"
    using W by (simp add: field_simps)
  finally show ?thesis unfolding bin_position_def W_def x_def .
qed

lemma bin_edge_mono:
  assumes "b \<le> b'"
  shows "2 powr (log 2 50 + (real_of_int b / 360) * (log 2 500 - log 2 50))
       \<le> 2 powr (log 2 50 + (real_of_int b' / 360) * (log 2 500 - log 2 50))"
proof -
  have "real_of_int b / 360 \<le> real_of_int b' / 360" using assms by simp
  then have "(real_of_int b / 360) * (log 2 500 - log 2 50) \<le> (real_of_int b' / 360) * (log 2 500 - log 2 50)"
    using log_width_pos by (rule mult_right_mono[OF _ less_imp_le])
  then show ?thesis by simp
qed

lemma pow_chain:
  fixes a c :: real
  assumes "0 \<le> a" "a ^ 10 < c" "c ^ 36 < 10"
  shows "a ^ 360 < 10"
proof -
  have "a ^ 360 = (a ^ 10) ^ 36" by (simp add: power_mult[symmetric])
  also have "\<dots> < c ^ 36"
    using assms(2) by (rule power_strict_mono) (use assms(1) in simp_all)
  also note assms(3)
  finally show ?thesis .
qed

lemma pow2: "((500::real) / 499) ^ 360 < 10"
  by (rule pow_chain[where c = "103 / 100"]) (simp_all add: power_divide)

lemma log_diff:
  fixes x y :: real
  assumes "0 < x" "0 < y"
  shows "log 2 x - log 2 y = log 2 (x / y)"
  using assms by (simp add: log_divide)

lemma log_width_10: "log 2 500 - log 2 50 = log 2 (10 :: real)"
proof -
  have "log 2 500 - log 2 50 = log 2 (500 / 50 :: real)" by (rule log_diff) simp_all
  also have "(500 / 50 :: real) = 10" by simp
  finally show ?thesis .
qed

lemma log_ratio_small:
  fixes r :: real
  assumes "1 \<le> r" "r ^ 360 < 10"
  shows "log 2 r / (log 2 500 - log 2 50) * 360 < 1"
proof -
  have r: "0 < r" using assms(1) by simp
  have "360 * log 2 r = log 2 (r ^ 360)"
    using r by (simp add: log_nat_power)
  also have "\<dots> < log 2 10" using assms(2) r by simp
  finally have a: "360 * log 2 r < log 2 10" .
  have "0 < log 2 (10::real)" by simp
  then show ?thesis unfolding log_width_10 using a by (simp add: field_simps)
qed

lemma scale_complement:
  fixes x y :: real
  assumes "x = 1 - y"
  shows "x * 360 = 360 - y * 360"
  using assms by simp

lemma complement_fraction:
  fixes a l u :: real
  assumes "u - l \<noteq> 0"
  shows "(a - l) / (u - l) * 360 = 360 - (u - a) / (u - l) * 360"
proof -
  have "(a - l) / (u - l) + (u - a) / (u - l) = (u - l) / (u - l)"
    by (simp add: add_divide_distrib[symmetric])
  also have "\<dots> = 1" using assms by simp
  finally have "(a - l) / (u - l) = 1 - (u - a) / (u - l)" by linarith
  then show ?thesis by (rule scale_complement)
qed

lemma position_499: "359 < bin_position 499"
proof -
  have b: "log 2 500 - log 2 499 = log 2 (500 / 499 :: real)"
    by (rule log_diff) simp_all
  have "(log 2 500 - log 2 499) / (log 2 500 - log 2 50) * 360 < 1"
    unfolding b by (rule log_ratio_small) (simp_all add: pow2)
  moreover have "bin_position 499 = 360 - (log 2 500 - log 2 499) / (log 2 500 - log 2 50) * 360"
    unfolding bin_position_def by (rule complement_fraction) (use log_width_pos in linarith)
  ultimately show ?thesis by linarith
qed

lemma top_bin:
  assumes "bin_to_pitch 359 50 500 360 = Inr e" "e \<le> hz" "hz \<le> 500"
  shows "pitch_to_bin hz 50 500 360 = Inr 359"
proof -
  have e: "e = 2 powr (log 2 50 + (real_of_int 359 / 360) * (log 2 500 - log 2 50))"
    using assms(1) unfolding bin_to_pitch_default by (rule Inr_inject[symmetric])
  have "0 < e" unfolding e by simp
  then have hz: "0 < hz" using assms(2) by linarith
  have "real_of_int 359 \<le> bin_position hz"
    using assms(2) unfolding e bin_edge_le_iff[OF hz] .
  then have f: "359 \<le> \<lfloor>bin_position hz\<rfloor>" by linarith
  have "e \<le> 500" using assms by linarith
  have "50 \<le> e"
    using bin_edge_mono[of 0 359] unfolding e by simp
  then have "50 \<le> hz" using assms(2) by linarith
  then show ?thesis
    using pitch_to_bin_in_range[OF _ assms(3)] f unfolding bin_position_def by simp
qed

lemma top_edge_below_max: "\<exists>e. bin_to_pitch 359 50 500 360 = Inr e \<and> e < 500"
proof -
  define W :: real where "W = log 2 500 - log 2 50"
  have W: "0 < W" unfolding W_def by (rule log_width_pos)
  have U: "log 2 (500::real) = log 2 50 + W" unfolding W_def by simp
  have "(real_of_int 359 / 360) * W < 1 * W"
    by (rule mult_strict_right_mono[OF _ W]) simp
  then have "log 2 50 + (real_of_int 359 / 360) * W < log 2 (500::real)"
    unfolding U by simp
  then have "2 powr (log 2 50 + (real_of_int 359 / 360) * W) < 2 powr (log 2 (500::real))"
    by (simp only: powr_less_cancel_iff one_less_numeral_iff semiring_norm)
  moreover have "2 powr (log 2 (500::real)) = 500" by simp
  ultimately show ?thesis unfolding bin_to_pitch_default W_def by simp
qed

lemma sentinel_outside_range:
  assumes "hz < 50 \<or> 500 < hz"
  shows "pitch_to_bin hz 50 500 360 = Inr (- 1)"
  using assms by (auto simp add: pitch_to_bin_def)

lemma bin_in_range:
  assumes "50 \<le> hz" "hz \<le> 500"
  shows "\<exists>b. pitch_to_bin hz 50 500 360 = Inr b \<and> 0 \<le> b \<and> b \<le> 359"
proof -
  have "0 \<le> \<lfloor>bin_position hz\<rfloor>"
    using bin_position_bounds(1)[OF assms] unfolding bin_position_def by simp
  then have "0 \<le> min \<lfloor>bin_position hz\<rfloor> 359 \<and> min \<lfloor>bin_position hz\<rfloor> 359 \<le> 359"
    by simp
  then show ?thesis
    using pitch_to_bin_in_range[OF assms] unfolding bin_position_def by blast
qed

lemma top_edge_below_499:
  "\<exists>e. bin_to_pitch 359 50 500 360 = Inr e \<and> e \<le> 499"
proof -
  have "real_of_int 359 \<le> bin_position 499" using position_499 by simp
  then have "2 powr (log 2 50 + (real_of_int 359 / 360) * (log 2 500 - log 2 50)) \<le> 499"
    by (simp only: bin_edge_le_iff[of 499 359, OF zero_less_numeral])
  then show ?thesis unfolding bin_to_pitch_default by blast
qed

subsection \<open>Claims about the codec\<close>

text \<open>
  C6. With the default parameters (50 Hz, 500 Hz, 360 bins) \<open>pitch_to_bin\<close> maps 50 Hz to
  bin 0; every frequency of the range gets a bin between 0 and 359, never 360; the lower
  edge of bin 359 lies below 500 Hz and every frequency from that edge up to 500 Hz gets
  bin 359; every frequency below 50 Hz or above 500 Hz (49.9 and 500.1 among them) gets
  the value \<open>-1\<close>, returned as a value and not raised, and that value is never the bin of
  a frequency of the range.
\<close>

theorem pitch_to_bin_default_edges:
  "pitch_to_bin 50 50 500 360 = Inr 0
   \<and> (\<forall>hz. 50 \<le> hz \<and> hz \<le> 500 \<longrightarrow>
         (\<exists>b. pitch_to_bin hz 50 500 360 = Inr b \<and> 0 \<le> b \<and> b \<le> 359))
   \<and> (\<exists>e. bin_to_pitch 359 50 500 360 = Inr e \<and> e < 500)
   \<and> (\<forall>hz e. bin_to_pitch 359 50 500 360 = Inr e \<and> e \<le> hz \<and> hz < 500 \<longrightarrow>
         pitch_to_bin hz 50 500 360 = Inr 359)
   \<and> (\<forall>hz. hz < 50 \<or> 500 < hz \<longrightarrow> pitch_to_bin hz 50 500 360 = Inr (- 1))
   \<and> pitch_to_bin (499 / 10) 50 500 360 = Inr (- 1)
   \<and> pitch_to_bin (5001 / 10) 50 500 360 = Inr (- 1)
   \<and> (\<forall>hz hz'. (hz < 50 \<or> 500 < hz) \<and> 50 \<le> hz' \<and> hz' \<le> 500 \<longrightarrow>
         pitch_to_bin hz 50 500 360 \<noteq> pitch_to_bin hz' 50 500 360)"
proof (intro conjI allI impI)
  show "pitch_to_bin 50 50 500 360 = Inr 0" by (rule enc50)
next
  fix hz :: real assume "50 \<le> hz \<and> hz \<le> 500"
  then show "\<exists>b. pitch_to_bin hz 50 500 360 = Inr b \<and> 0 \<le> b \<and> b \<le> 359"
    using bin_in_range by blast
next
  show "\<exists>e. bin_to_pitch 359 50 500 360 = Inr e \<and> e < 500" by (rule top_edge_below_max)
next
  fix hz e :: real
  assume "bin_to_pitch 359 50 500 360 = Inr e \<and> e \<le> hz \<and> hz < 500"
  then show "pitch_to_bin hz 50 500 360 = Inr 359"
    using top_bin[of e hz] by simp
next
  fix hz :: real assume "hz < 50 \<or> 500 < hz"
  then show "pitch_to_bin hz 50 500 360 = Inr (- 1)" by (rule sentinel_outside_range)
next
  show "pitch_to_bin (499 / 10) 50 500 360 = Inr (- 1)"
    by (rule sentinel_outside_range) simp
next
  show "pitch_to_bin (5001 / 10) 50 500 360 = Inr (- 1)"
    by (rule sentinel_outside_range) simp
next
  fix hz hz' :: real
  assume a: "(hz < 50 \<or> 500 < hz) \<and> 50 \<le> hz' \<and> hz' \<le> 500"
  then have "pitch_to_bin hz 50 500 360 = Inr (- 1)" using sentinel_outside_range by blast
  moreover obtain b where "pitch_to_bin hz' 50 500 360 = Inr b" "0 \<le> b"
    using a bin_in_range[of hz'] by blast
  ultimately show "pitch_to_bin hz 50 500 360 \<noteq> pitch_to_bin hz' 50 500 360" by simp
qed

theorem pitch_to_bin_default_edges_witness:
  "(\<exists>b. pitch_to_bin 500 50 500 360 = Inr b \<and> 0 \<le> b \<and> b \<le> 359)
   \<and> pitch_to_bin 499 50 500 360 = Inr 359
   \<and> pitch_to_bin 40 50 500 360 = Inr (- 1)
   \<and> pitch_to_bin 501 50 500 360 \<noteq> pitch_to_bin 50 50 500 360"
proof -
  note t = pitch_to_bin_default_edges
  have "(50::real) \<le> 500 \<and> (500::real) \<le> 500" by simp
  with t have a: "\<exists>b. pitch_to_bin 500 50 500 360 = Inr b \<and> 0 \<le> b \<and> b \<le> 359"
    by blast
  obtain e where e: "bin_to_pitch 359 50 500 360 = Inr e" "e \<le> 499"
    using top_edge_below_499 by blast
  have "bin_to_pitch 359 50 500 360 = Inr e \<and> e \<le> 499 \<and> (499::real) < 500"
    using e by simp
  with t have b: "pitch_to_bin 499 50 500 360 = Inr 359" by blast
  have "(40::real) < 50 \<or> 500 < (40::real)" by simp
  with t have c: "pitch_to_bin 40 50 500 360 = Inr (- 1)" by blast
  have "((501::real) < 50 \<or> 500 < (501::real)) \<and> (50::real) \<le> 50 \<and> (50::real) \<le> 500" by simp
  with t have d: "pitch_to_bin 501 50 500 360 \<noteq> pitch_to_bin 50 50 500 360" by blast
  show ?thesis using a b c d by blast
qed

section \<open>Properties of the evaluation metrics\<close>

subsection \<open>Pitch mode\<close>

lemma cents_diff_samples:
  "cents_diff (map (\<lambda>i. fst (sample i)) xs) (map (\<lambda>i. snd (sample i)) xs)
     = map (sample_error sample) xs"
  unfolding cents_diff_def sample_error_def
  by (induction xs) (simp_all add: case_prod_beta)

lemma sum_list_of_bool:
  "sum_list (map (\<lambda>x. of_bool (P x)) xs) = (real (length (filter P xs)))"
  by (induction xs) simp_all

lemma np_mean_upt:
  assumes "0 < n"
  shows "np_mean (map f [0..<n]) = Some (sum f {..<n} / real n)"
proof -
  have "sum_list (map f [0..<n]) = sum f {..<n}"
    by (simp add: interv_sum_list_conv_sum_set_nat lessThan_atLeast0)
  then show ?thesis using assms by (simp add: np_mean_def)
qed

lemma np_mean_bool_upt:
  assumes "0 < n"
  shows "np_mean_bool (map P [0..<n]) = Some (real (card {i. i < n \<and> P i}) / real n)"
proof -
  have "length (filter P [0..<n]) = card (set (filter P [0..<n]))"
    by (rule distinct_card[symmetric]) simp
  also have "set (filter P [0..<n]) = {i. i < n \<and> P i}" by auto
  finally have c: "length (filter P [0..<n]) = card {i. i < n \<and> P i}" .
  have "sum_list (map of_bool (map P [0..<n])) = real (length (filter P [0..<n]))"
    unfolding map_map comp_def by (rule sum_list_of_bool)
  then show ?thesis using assms c by (simp add: np_mean_bool_def np_mean_def)
qed

lemma pitch_metrics_fields:
  "test_samples (pitch_metrics n ps ts) = n"
  "mae_cents (pitch_metrics n ps ts) = np_mean (cents_diff ps ts)"
  "rpa_50_cents (pitch_metrics n ps ts) = percent (np_mean_bool (map (\<lambda>d. d < 50) (cents_diff ps ts)))"
  "gross_pitch_error (pitch_metrics n ps ts) = percent (np_mean_bool (map (\<lambda>d. d > 100) (cents_diff ps ts)))"
  by (simp_all add: pitch_metrics_def Let_def)

lemma evaluate_pitch_model_fields:
  "test_samples (evaluate_pitch_model sample) = 100"
  "mae_cents (evaluate_pitch_model sample)
     = Some ((\<Sum>i<100. sample_error sample i) / 100)"
  "rpa_50_cents (evaluate_pitch_model sample)
     = Some (real (card {i. i < 100 \<and> sample_error sample i < 50}) / 100 * 100)"
  "gross_pitch_error (evaluate_pitch_model sample)
     = Some (real (card {i. i < 100 \<and> 100 < sample_error sample i}) / 100 * 100)"
proof -
  have pos: "0 < (100::nat)" by simp
  have r: "real (100::nat) = 100" by simp
  show "test_samples (evaluate_pitch_model sample) = 100"
    unfolding evaluate_pitch_model_def Let_def pitch_metrics_fields ..
  show "mae_cents (evaluate_pitch_model sample)
     = Some ((\<Sum>i<100. sample_error sample i) / 100)"
    unfolding evaluate_pitch_model_def Let_def pitch_metrics_fields cents_diff_samples
      np_mean_upt[OF pos] r ..
  show "rpa_50_cents (evaluate_pitch_model sample)
     = Some (real (card {i. i < 100 \<and> sample_error sample i < 50}) / 100 * 100)"
    unfolding evaluate_pitch_model_def Let_def pitch_metrics_fields cents_diff_samples
      map_map comp_def np_mean_bool_upt[OF pos] r percent_def option.map ..
  show "gross_pitch_error (evaluate_pitch_model sample)
     = Some (real (card {i. i < 100 \<and> 100 < sample_error sample i}) / 100 * 100)"
    unfolding evaluate_pitch_model_def Let_def pitch_metrics_fields cents_diff_samples
      map_map comp_def np_mean_bool_upt[OF pos] r percent_def option.map ..
qed

lemma octave_error: "sample_error octave_off i = 200"
  by (simp add: sample_error_def octave_off_def)

lemma spec_octave: "spec_cents_error 400 200 = 1200"
  by (simp add: spec_cents_error_def)

lemma spec_unison: "spec_cents_error 200 200 = 0"
  by (simp add: spec_cents_error_def)

lemma one_invalid_error: "sample_error one_invalid i = (if i = 0 then 200 else 0)"
  by (simp add: sample_error_def one_invalid_def)

lemma one_invalid_mae: "mae_cents (evaluate_pitch_model one_invalid) = Some 2"
  by (simp add: evaluate_pitch_model_fields one_invalid_error)

lemma one_invalid_not_valid: "\<not> spec_valid_sample (one_invalid 0)"
  by (simp add: spec_valid_sample_def one_invalid_def)

lemma sum_list_all_zero:
  fixes f :: "nat \<Rightarrow> real"
  shows "(\<And>x. x \<in> set xs \<Longrightarrow> f x = 0) \<Longrightarrow> sum_list (map f xs) = 0"
  by (induction xs) simp_all

lemma one_invalid_valid_only:
  "np_mean (map (sample_error one_invalid)
       (filter (\<lambda>i. spec_valid_sample (one_invalid i)) [0..<100])) = Some 0"
proof -
  have "(1::nat) \<in> set (filter (\<lambda>i. spec_valid_sample (one_invalid i)) [0..<100])"
    by (simp add: spec_valid_sample_def one_invalid_def)
  then have ne: "filter (\<lambda>i. spec_valid_sample (one_invalid i)) [0..<100] \<noteq> []"
    by (metis empty_iff list.set(1))
  have "sum_list (map (sample_error one_invalid)
       (filter (\<lambda>i. spec_valid_sample (one_invalid i)) [0..<100])) = 0"
    by (rule sum_list_all_zero)
       (auto simp add: one_invalid_error spec_valid_sample_def one_invalid_def split: if_splits)
  then show ?thesis using ne by (simp add: np_mean_def)
qed

text \<open>
  C1. The error of a sample is the plain difference \<open>\<bar>pred - true\<bar>\<close> of line 69, not the
  interval in cents. For a prediction of 200 against 200 Hz both are 0. For a prediction
  of 400 against 200 Hz the specification's error is 1200 cents, the code's is 200: a run
  of such samples reports a mean absolute error of 200, with every sample counted as a
  gross error and none as accurate.
\<close>

theorem evaluate_pitch_model_octave:
  "cents_diff [200] [200] = [0]
   \<and> spec_cents_error 200 200 = 0
   \<and> cents_diff [400] [200] = [200]
   \<and> spec_cents_error 400 200 = 1200
   \<and> mae_cents (evaluate_pitch_model octave_off) = Some 200
   \<and> gross_pitch_error (evaluate_pitch_model octave_off) = Some 100
   \<and> rpa_50_cents (evaluate_pitch_model octave_off) = Some 0"
  by (simp add: evaluate_pitch_model_fields octave_error spec_octave spec_unison cents_diff_def)

text \<open>
  C2, as stated, fails: in the run \<open>one_invalid\<close> the first sample has the non-positive
  prediction 0. It is not left out: the reported mean absolute error is 2 (the sample's
  error of 200 spread over all 100 samples), where the 99 valid samples alone have mean
  error 0.
\<close>

theorem evaluate_pitch_model_counts_invalid:
  "\<not> spec_valid_sample (one_invalid 0)
   \<and> mae_cents (evaluate_pitch_model one_invalid) = Some 2
   \<and> np_mean (map (sample_error one_invalid)
         (filter (\<lambda>i. spec_valid_sample (one_invalid i)) [0..<100])) = Some 0"
  using one_invalid_not_valid one_invalid_mae one_invalid_valid_only by simp

text \<open>
  C2, amended. Pitch-mode evaluation aggregates every one of its 100 samples, whatever the
  sign of the predicted or the true value: the reported sample count is 100, the mean
  absolute error is the sum of all 100 errors divided by 100, and the two percentages
  count, among all 100 samples, those with error below 50 and those with error above 100.
\<close>

theorem evaluate_pitch_model_all_samples:
  "test_samples (evaluate_pitch_model sample) = 100
   \<and> mae_cents (evaluate_pitch_model sample)
       = Some ((\<Sum>i<100. sample_error sample i) / 100)
   \<and> rpa_50_cents (evaluate_pitch_model sample)
       = Some (real (card {i. i < 100 \<and> sample_error sample i < 50}) / 100 * 100)
   \<and> gross_pitch_error (evaluate_pitch_model sample)
       = Some (real (card {i. i < 100 \<and> 100 < sample_error sample i}) / 100 * 100)"
  by (simp only: evaluate_pitch_model_fields simp_thms)

theorem evaluate_pitch_model_all_samples_witness:
  "test_samples (evaluate_pitch_model one_invalid) = 100
   \<and> mae_cents (evaluate_pitch_model one_invalid) = Some 2"
  using evaluate_pitch_model_all_samples[of one_invalid]
  by (simp add: one_invalid_error)

subsection \<open>Classification mode\<close>

lemma count_zip_same: "count_list (zip xs xs) (t, p) = (if t = p then count_list xs t else 0)"
  by (induction xs) auto

lemma unique_labels_set: "set (sk_unique_labels yt yp) = set yt \<union> set yp"
  by (simp add: sk_unique_labels_def)

lemma unique_labels_length: "length (sk_unique_labels yt yp) = card (set yt \<union> set yp)"
  by (simp add: sk_unique_labels_def length_remdups_card_conv)

lemma unique_labels_canonical:
  assumes "set yt \<union> set yp = {0..<n}"
  shows "sk_unique_labels yt yp = [0..<n]"
proof -
  have "sk_unique_labels yt yp = sorted_list_of_set (set (yt @ yp))"
    unfolding sk_unique_labels_def by (rule sorted_list_of_set_sort_remdups[symmetric])
  also have "\<dots> = sorted_list_of_set {0..<n}" using assms by simp
  also have "\<dots> = [0..<n]" by (rule sorted_list_of_set_range)
  finally show ?thesis .
qed

lemma length_swar_classes: "length swar_classes = 12"
  by (simp add: swar_classes_def)

lemma confusion_matrix_canonical:
  assumes "set yt \<union> set yp = {0..<12}"
  shows "length (sk_confusion_matrix yt yp) = 12"
    and "t < 12 \<Longrightarrow> length (sk_confusion_matrix yt yp ! t) = 12"
    and "t < 12 \<Longrightarrow> p < 12 \<Longrightarrow> sk_confusion_matrix yt yp ! t ! p = count_list (zip yt yp) (t, p)"
  unfolding sk_confusion_matrix_def Let_def unique_labels_canonical[OF assms]
  by simp_all

lemma np_mean_bool_all_true:
  assumes "xs \<noteq> []"
  shows "np_mean_bool (map (\<lambda>(p, t). p = t) (zip xs xs)) = Some 1"
proof -
  have "sum_list (map of_bool (map (\<lambda>(p, t). p = t) (zip xs xs))) = real (length xs)"
    by (induction xs) simp_all
  then show ?thesis using assms by (simp add: np_mean_bool_def np_mean_def)
qed

lemma class_metrics_perfect:
  assumes "c \<in> set xs"
  shows "sk_class_metrics xs xs c =
     \<lparr>precision = 1, recall = 1, f1_score = 1, support = count_list xs c\<rparr>"
proof -
  have "count_list xs c \<noteq> 0" using assms by (simp only: count_list_0_iff not_not)
  then have "0 < count_list xs c" by simp
  then show ?thesis
    by (simp add: sk_class_metrics_def Let_def count_zip_same zero_division_def)
qed

lemma swar_metrics_result:
  assumes "set ground_truth \<union> set predictions = {0..<12}"
  shows "swar_metrics n predictions ground_truth =
     Inr \<lparr>model_type = ''swar_classification'', test_samples = n,
          top1_accuracy = percent (np_mean_bool (map (\<lambda>(p, t). p = t) (zip predictions ground_truth))),
          classification_report =
            \<lparr>per_class = zip swar_classes (map (sk_class_metrics ground_truth predictions) [0..<12]),
             accuracy = zero_division
                  (real (length (filter (\<lambda>(t, p). t = p) (zip ground_truth predictions))))
                  (real (length ground_truth)),
             macro_avg = sk_average (map (\<lambda>m. 1) (map (sk_class_metrics ground_truth predictions) [0..<12]))
                  (map (sk_class_metrics ground_truth predictions) [0..<12]),
             weighted_avg = sk_average (map (\<lambda>m. real (support m)) (map (sk_class_metrics ground_truth predictions) [0..<12]))
                  (map (sk_class_metrics ground_truth predictions) [0..<12])\<rparr>,
          confusion_matrix = sk_confusion_matrix ground_truth predictions\<rparr>"
  unfolding swar_metrics_def sk_classification_report_def Let_def
    unique_labels_canonical[OF assms] length_swar_classes
  by simp

lemma spec_confusion_matrix_shape:
  "length (spec_confusion_matrix yt yp) = 12"
  "t < 12 \<Longrightarrow> length (spec_confusion_matrix yt yp ! t) = 12"
  "t < 12 \<Longrightarrow> p < 12 \<Longrightarrow> spec_confusion_matrix yt yp ! t ! p = count_list (zip yt yp) (t, p)"
  by (simp_all add: spec_confusion_matrix_def)

lemma confusion_matrix_is_spec:
  assumes "set yt \<union> set yp = {0..<12}"
  shows "sk_confusion_matrix yt yp = spec_confusion_matrix yt yp"
  unfolding sk_confusion_matrix_def Let_def unique_labels_canonical[OF assms] spec_confusion_matrix_def ..

lemma placeholder_truth: "set (map (\<lambda>i. i mod 12) [0..<120]) = {0..<12::nat}"
proof
  show "set (map (\<lambda>i. i mod 12) [0..<120]) \<subseteq> {0..<12::nat}" by auto
  show "{0..<12::nat} \<subseteq> set (map (\<lambda>i. i mod 12) [0..<120])"
  proof
    fix c :: nat assume "c \<in> {0..<12}"
    then have "c < 120" "c mod 12 = c" by simp_all
    then have "c \<in> (\<lambda>i. i mod 12) ` {0..<120}" by (metis atLeastLessThan_iff image_eqI zero_le)
    then show "c \<in> set (map (\<lambda>i. i mod 12) [0..<120])" by simp
  qed
qed

lemma placeholder_labels:
  assumes "\<forall>i<120. pred_class i < 12"
  shows "set (map (\<lambda>i. i mod 12) [0..<120]) \<union> set (map pred_class [0..<120]) = {0..<12::nat}"
proof -
  have "set (map pred_class [0..<120]) \<subseteq> {0..<12}" using assms by auto
  then show ?thesis unfolding placeholder_truth by auto
qed

lemma swar_metrics_matrix:
  assumes "set ground_truth \<union> set predictions = {0..<12}"
  shows "\<exists>r. swar_metrics n predictions ground_truth = Inr r
           \<and> confusion_matrix r = spec_confusion_matrix ground_truth predictions"
  unfolding swar_metrics_result[OF assms] confusion_matrix_is_spec[OF assms] by simp

lemma evaluate_swar_matrix:
  assumes "\<forall>i<120. pred_class i < 12"
  shows "\<exists>r. evaluate_swar_classifier pred_class = Inr r
           \<and> confusion_matrix r
               = spec_confusion_matrix (map (\<lambda>i. i mod 12) [0..<120]) (map pred_class [0..<120])"
  unfolding evaluate_swar_classifier_def Let_def
  by (rule swar_metrics_matrix[OF placeholder_labels[OF assms]])

lemma spec_matrix_rows: "list_all (\<lambda>row. length row = 12) (spec_confusion_matrix yt yp)"
  by (simp add: spec_confusion_matrix_def list_all_iff)

lemma spec_matrix_diagonal:
  "list_all (\<lambda>t. list_all (\<lambda>p. t = p \<or> spec_confusion_matrix xs xs ! t ! p = 0) [0..<12]) [0..<12]"
  by (simp add: list_all_iff spec_confusion_matrix_shape count_zip_same)

lemma perfect_f1:
  assumes "set xs = {0..<12}"
  shows "list_all (\<lambda>m. f1_score m = 1) (map (sk_class_metrics xs xs) [0..<12])"
  using assms by (simp add: list_all_iff class_metrics_perfect)

lemma swar_metrics_perfect:
  assumes "set xs = {0..<12}"
  shows "\<exists>r. swar_metrics n xs xs = Inr r \<and> spec_perfect_results r"
proof -
  have u: "set xs \<union> set xs = {0..<12}" using assms by simp
  have ne: "xs \<noteq> []" using assms by auto
  have names: "map fst (zip swar_classes (map (sk_class_metrics xs xs) [0..<12])) = swar_classes"
    by (simp add: length_swar_classes)
  have vals: "map snd (zip swar_classes (map (sk_class_metrics xs xs) [0..<12]))
      = map (sk_class_metrics xs xs) [0..<12]"
    by (simp add: length_swar_classes)
  show ?thesis
    unfolding swar_metrics_result[OF u] confusion_matrix_is_spec[OF u]
    by (simp add: spec_perfect_results_def np_mean_bool_all_true[OF ne] percent_def
          spec_confusion_matrix_shape spec_matrix_rows spec_matrix_diagonal names vals
          perfect_f1[OF assms])
qed

lemma evaluate_swar_perfect:
  assumes "\<forall>i<120. pred_class i = i mod 12"
  shows "\<exists>r. evaluate_swar_classifier pred_class = Inr r \<and> spec_perfect_results r"
proof -
  have e: "map pred_class [0..<120] = map (\<lambda>i. i mod 12) [0..<120]"
    using assms by simp
  show ?thesis
    unfolding evaluate_swar_classifier_def Let_def e
    by (rule swar_metrics_perfect[OF placeholder_truth])
qed

lemma count_zip_card:
  "count_list (zip (map f [0..<n]) (map g [0..<n])) (t, p) = card {i. i < n \<and> f i = t \<and> g i = p}"
proof (induction n)
  case 0
  show ?case by simp
next
  case (Suc n)
  have s: "{i. i < Suc n \<and> f i = t \<and> g i = p}
      = (if f n = t \<and> g n = p then insert n {i. i < n \<and> f i = t \<and> g i = p}
         else {i. i < n \<and> f i = t \<and> g i = p})"
    by (auto simp add: less_Suc_eq)
  have fin: "finite {i. i < n \<and> f i = t \<and> g i = p}" by simp
  have "count_list (zip (map f [0..<Suc n]) (map g [0..<Suc n])) (t, p)
      = count_list (zip (map f [0..<n]) (map g [0..<n])) (t, p)
        + (if f n = t \<and> g n = p then 1 else 0)"
    by (simp add: zip_append)
  also have "\<dots> = card {i. i < n \<and> f i = t \<and> g i = p} + (if f n = t \<and> g n = p then 1 else 0)"
    unfolding Suc.IH ..
  also have "\<dots> = card {i. i < Suc n \<and> f i = t \<and> g i = p}"
    unfolding s using fin by simp
  finally show ?case .
qed

lemma ten_of_class_5: "card {i::nat. i < 120 \<and> i mod 12 = 5} = 10"
proof -
  have "{i::nat. i < 120 \<and> i mod 12 = 5} = (\<lambda>k. 12 * k + 5) ` {..<10}"
  proof (intro set_eqI iffI)
    fix i :: nat assume "i \<in> {i. i < 120 \<and> i mod 12 = 5}"
    then have a: "i < 120" "i mod 12 = 5" by simp_all
    have "i = 12 * (i div 12) + i mod 12" by simp
    then have "i = 12 * (i div 12) + 5" unfolding a(2) .
    moreover have "i div 12 < 10" using a(1) by simp
    ultimately have "i = 12 * (i div 12) + 5" "i div 12 < 10" by simp_all
    then show "i \<in> (\<lambda>k. 12 * k + 5) ` {..<10}" by blast
  next
    fix i :: nat assume "i \<in> (\<lambda>k. 12 * k + 5) ` {..<10}"
    then obtain k where "k < 10" "i = 12 * k + 5" by auto
    then show "i \<in> {i. i < 120 \<and> i mod 12 = 5}" by simp
  qed
  moreover have "inj_on (\<lambda>k::nat. 12 * k + 5) {..<10}" by (simp add: inj_on_def)
  ultimately show ?thesis by (simp add: card_image)
qed

text \<open>
  C5. \<open>evaluate_swar_classifier\<close> builds the true classes itself, \<open>i % 12\<close> for the 120
  samples, so all twelve classes occur among them whatever the network predicts. For
  every run whose predictions are class indices below 12, also one that never predicts
  some of the classes, the function returns results whose confusion matrix has twelve
  rows of twelve entries each, and entry \<open>[t][p]\<close> is the number of samples with true
  class \<open>t\<close> and predicted class \<open>p\<close>, rows and columns in the order of \<open>swar_classes\<close>.
\<close>

theorem swar_confusion_matrix_shape:
  "(\<forall>i<120. pred_class i < 12) \<longrightarrow>
     (\<exists>r. evaluate_swar_classifier pred_class = Inr r
        \<and> length (confusion_matrix r) = 12
        \<and> (\<forall>t<12. length (confusion_matrix r ! t) = 12
             \<and> (\<forall>p<12. confusion_matrix r ! t ! p
                          = card {i. i < 120 \<and> i mod 12 = t \<and> pred_class i = p})))"
proof
  assume a: "\<forall>i<120. pred_class i < 12"
  obtain r where r: "evaluate_swar_classifier pred_class = Inr r"
    and cm: "confusion_matrix r
               = spec_confusion_matrix (map (\<lambda>i. i mod 12) [0..<120]) (map pred_class [0..<120])"
    using evaluate_swar_matrix[OF a] by blast
  have "length (confusion_matrix r) = 12"
    unfolding cm by (rule spec_confusion_matrix_shape)
  moreover have "\<forall>t<12. length (confusion_matrix r ! t) = 12
             \<and> (\<forall>p<12. confusion_matrix r ! t ! p
                          = card {i. i < 120 \<and> i mod 12 = t \<and> pred_class i = p})"
    unfolding cm by (simp add: spec_confusion_matrix_shape count_zip_card)
  ultimately show "\<exists>r. evaluate_swar_classifier pred_class = Inr r
        \<and> length (confusion_matrix r) = 12
        \<and> (\<forall>t<12. length (confusion_matrix r ! t) = 12
             \<and> (\<forall>p<12. confusion_matrix r ! t ! p
                          = card {i. i < 120 \<and> i mod 12 = t \<and> pred_class i = p}))"
    using r by blast
qed

theorem swar_confusion_matrix_shape_witness:
  "\<exists>r. evaluate_swar_classifier (\<lambda>i. 0) = Inr r
      \<and> length (confusion_matrix r) = 12
      \<and> length (confusion_matrix r ! 5) = 12
      \<and> confusion_matrix r ! 5 ! 0 = 10
      \<and> confusion_matrix r ! 5 ! 5 = 0"
proof -
  have c: "\<forall>i<120. (\<lambda>i::nat. 0::nat) i < 12" by simp
  obtain r where r: "evaluate_swar_classifier (\<lambda>i. 0) = Inr r"
    "length (confusion_matrix r) = 12"
    and e: "\<forall>t<12. length (confusion_matrix r ! t) = 12
             \<and> (\<forall>p<12. confusion_matrix r ! t ! p
                          = card {i. i < 120 \<and> i mod 12 = t \<and> (0::nat) = p})"
    using swar_confusion_matrix_shape[of "\<lambda>i. 0"] c by blast
  have "length (confusion_matrix r ! 5) = 12"
    "confusion_matrix r ! 5 ! 0 = card {i::nat. i < 120 \<and> i mod 12 = 5 \<and> (0::nat) = 0}"
    "confusion_matrix r ! 5 ! 5 = card {i::nat. i < 120 \<and> i mod 12 = 5 \<and> (0::nat) = 5}"
    using e by simp_all
  then show ?thesis using r by (simp add: ten_of_class_5)
qed

text \<open>
  C9. When every prediction of \<open>evaluate_swar_classifier\<close> equals the true class of its
  sample, the function returns results with top-1 accuracy 100, a twelve by twelve
  confusion matrix whose entries off the diagonal are all zero, and an F1 score of 1 for
  each of the twelve classes, all of which occur in the ground truth.
\<close>

theorem swar_perfect_predictions:
  "(\<forall>i<120. pred_class i = i mod 12) \<longrightarrow>
     (\<exists>r. evaluate_swar_classifier pred_class = Inr r \<and> spec_perfect_results r)"
  using evaluate_swar_perfect by blast

theorem swar_perfect_predictions_witness:
  "\<exists>r. evaluate_swar_classifier (\<lambda>i. i mod 12) = Inr r \<and> spec_perfect_results r"
proof -
  have b: "\<forall>i<120. (\<lambda>i::nat. i mod 12) i = i mod 12" by simp
  show ?thesis
    using swar_perfect_predictions[of "\<lambda>i. i mod 12"] b by blast
qed

section \<open>Properties of the model conversion\<close>

lemma conversion_statistics_value:
  assumes "0 < st_size"
  shows "conversion_statistics st_size len =
     Inr \<lparr>original_size = real st_size / (1024 * 1024), tflite_size = real len / (1024 * 1024),
          compression_ratio = (1 - real len / real st_size) * 100\<rparr>"
  using assms by (simp add: conversion_statistics_def Let_def)

lemma conversion_statistics_empty:
  "conversion_statistics 0 len = Inl ZeroDivisionError"
  by (simp add: conversion_statistics_def)

lemma printed_fold: "printed (fold py_print ls w) = printed w @ ls"
  by (induction ls arbitrary: w) (simp_all add: py_print_def)

lemma files_fold: "files (fold py_print ls w) = files w"
  by (induction ls arbitrary: w) (simp_all add: py_print_def)

lemma invoked_fold: "invoked (fold py_print ls w) = invoked w"
  by (induction ls arbitrary: w) (simp_all add: py_print_def)

lemma files_print: "files (py_print l w) = files w"
  by (simp add: py_print_def)

lemma invoked_print: "invoked (py_print l w) = invoked w"
  by (simp add: py_print_def)

lemma printed_print: "printed (py_print l w) = printed w @ [l]"
  by (simp add: py_print_def)

lemma convert_to_tflite_success:
  assumes "files w model_path = Some h5" "load_model tf h5 = Inr m"
    and "convert tf (converter_settings optimize quantize) m = Inr a"
    and "output_path \<noteq> model_path" "h5 \<noteq> []"
  shows "\<exists>w'. convert_to_tflite tf model_path output_path optimize quantize w = (Inr a, w')
           \<and> files w' = (files w)(output_path \<mapsto> a)
           \<and> invoked w' = invoked w
           \<and> Stat ''Compression (%)'' ((1 - real (length a) / real (length h5)) * 100)
                \<in> set (printed w')"
proof -
  have pos: "0 < length h5" using assms(5) by simp
  show ?thesis
    unfolding convert_to_tflite_def Let_def
    using assms(1-4)
    by (simp add: files_print files_fold invoked_print invoked_fold printed_fold printed_print
          conversion_statistics_value[OF pos])
qed

lemma convert_to_tflite_converter_failure:
  assumes "files w model_path = Some h5" "load_model tf h5 = Inr m"
    and "convert tf (converter_settings optimize quantize) m = Inl e"
  shows "\<exists>w'. convert_to_tflite tf model_path output_path optimize quantize w = (Inl e, w')
           \<and> files w' = files w \<and> invoked w' = invoked w"
  unfolding convert_to_tflite_def Let_def
  using assms
  by (simp add: files_print files_fold invoked_print invoked_fold)

lemma convert_to_tflite_files_invoked:
  "invoked (snd (convert_to_tflite tf model_path output_path optimize quantize w)) = invoked w"
  unfolding convert_to_tflite_def Let_def
  by (simp add: files_print files_fold invoked_print invoked_fold split: option.splits sum.splits)

lemma convert_to_tflite_Inr:
  assumes "convert_to_tflite tf model_path output_path optimize quantize w = (Inr a, w')"
  shows "\<exists>h5 m. files w model_path = Some h5 \<and> load_model tf h5 = Inr m
           \<and> convert tf (converter_settings optimize quantize) m = Inr a
           \<and> files w' = (files w)(output_path \<mapsto> a)"
  using assms unfolding convert_to_tflite_def Let_def
  by (auto simp add: files_print files_fold split: option.splits sum.splits)

lemma test_tflite_model_files:
  "files (snd (test_tflite_model tf p ti w)) = files w"
  unfolding test_tflite_model_def Let_def
  by (simp add: files_print files_fold split: option.splits sum.splits)

lemma test_tflite_model_returns:
  assumes "files w p = Some b" "interpreter tf b = Inr it"
    and "set_tensor it (synthetic_input tf it) = Inr ()"
    and "invoke it (synthetic_input tf it) = Inr out"
    and "2 \<le> length (shape out)" "hd (shape out) \<noteq> 0"
  shows "\<exists>w'. test_tflite_model tf p None w = (Inr out, w')
           \<and> invoked w' = invoked w @ [synthetic_input tf it]
           \<and> files w' = files w
           \<and> Shape_line ''Output shape'' (shape out) \<in> set (printed w')"
  unfolding test_tflite_model_def Let_def
  using assms unfolding synthetic_input_def
  by (simp add: files_print files_fold invoked_print invoked_fold printed_fold printed_print)

lemma test_tflite_model_rejected:
  assumes "files w p = Some b" "interpreter tf b = Inr it"
    and "set_tensor it (synthetic_input tf it) = Inl e"
  shows "\<exists>w'. test_tflite_model tf p None w = (Inl e, w') \<and> invoked w' = invoked w"
  unfolding test_tflite_model_def Let_def
  using assms unfolding synthetic_input_def
  by (simp add: files_print files_fold invoked_print invoked_fold)

lemma main_without_test:
  assumes "\<not> arg_test a"
  shows "invoked (snd (main tf a w)) = invoked w"
proof -
  obtain r w1 where c: "convert_to_tflite tf (arg_model a) (arg_output a) (arg_optimize a) (arg_quantize a) w = (r, w1)"
    by (cases "convert_to_tflite tf (arg_model a) (arg_output a) (arg_optimize a) (arg_quantize a) w")
  have "invoked w1 = invoked w"
    using convert_to_tflite_files_invoked[of tf "arg_model a" "arg_output a" "arg_optimize a" "arg_quantize a" w]
    unfolding c by simp
  then show ?thesis
    unfolding main_def c using assms
    by (cases r) (simp_all add: invoked_print)
qed

lemma main_keeps_artifact:
  assumes "convert_to_tflite tf (arg_model a) (arg_output a) (arg_optimize a) (arg_quantize a) w = (Inr art, w1)"
  shows "files (snd (main tf a w)) = files w1"
proof -
  obtain r w2 where t: "test_tflite_model tf (arg_output a) None w1 = (r, w2)"
    by (cases "test_tflite_model tf (arg_output a) None w1")
  have "files w2 = files w1"
    using test_tflite_model_files[of tf "arg_output a" None w1] unfolding t by simp
  then show ?thesis
    by (cases r) (simp_all add: main_def assms t files_print)
qed

lemma test_tflite_model_invoked:
  assumes "files w p = Some b" "interpreter tf b = Inr it"
    and "set_tensor it (synthetic_input tf it) = Inr ()"
  shows "invoked (snd (test_tflite_model tf p None w)) = invoked w @ [synthetic_input tf it]"
  unfolding test_tflite_model_def Let_def
  using assms unfolding synthetic_input_def
  by (simp add: files_print files_fold invoked_print invoked_fold split: sum.splits)

lemma main_with_test:
  assumes "arg_test a"
    and "convert_to_tflite tf (arg_model a) (arg_output a) (arg_optimize a) (arg_quantize a) w = (Inr art, w1)"
    and "interpreter tf art = Inr it"
    and "set_tensor it (synthetic_input tf it) = Inr ()"
  shows "invoked (snd (main tf a w)) = invoked w @ [synthetic_input tf it]"
proof -
  obtain r w2 where t: "test_tflite_model tf (arg_output a) None w1 = (r, w2)"
    by (cases "test_tflite_model tf (arg_output a) None w1")
  have f: "files w1 (arg_output a) = Some art"
    using convert_to_tflite_Inr[OF assms(2)] by auto
  have "invoked w1 = invoked w"
    using convert_to_tflite_files_invoked[of tf "arg_model a" "arg_output a" "arg_optimize a" "arg_quantize a" w]
    unfolding assms(2) by simp
  then have "invoked w2 = invoked w @ [synthetic_input tf it]"
    using test_tflite_model_invoked[OF f assms(3,4)] unfolding t by simp
  then show ?thesis
    by (cases r) (simp_all add: main_def assms(1,2) t invoked_print)
qed

lemma main_test_succeeds:
  assumes "arg_test a"
    and "convert_to_tflite tf (arg_model a) (arg_output a) (arg_optimize a) (arg_quantize a) w = (Inr art, w1)"
    and "interpreter tf art = Inr it"
    and "set_tensor it (synthetic_input tf it) = Inr ()"
    and "invoke it (synthetic_input tf it) = Inr out"
    and "2 \<le> length (shape out)" "hd (shape out) \<noteq> 0"
  shows "fst (main tf a w) = Inr ()"
    and "Shape_line ''Output shape'' (shape out) \<in> set (printed (snd (main tf a w)))"
proof -
  have f: "files w1 (arg_output a) = Some art"
    using convert_to_tflite_Inr[OF assms(2)] by auto
  obtain w2 where t: "test_tflite_model tf (arg_output a) None w1 = (Inr out, w2)"
    and pr: "Shape_line ''Output shape'' (shape out) \<in> set (printed w2)"
    using test_tflite_model_returns[OF f assms(3-7)] by blast
  show "fst (main tf a w) = Inr ()"
    by (simp add: main_def assms(1,2) t)
  show "Shape_line ''Output shape'' (shape out) \<in> set (printed (snd (main tf a w)))"
    using pr by (simp add: main_def assms(1,2) t printed_print)
qed

lemma code_dtype_code: "code_dtype (dtype_code d) = d"
  by (cases d) (simp_all add: dtype_code_def code_dtype_def)

lemma demo_convert:
  "convert_to_tflite demo_libs ''m.h5'' ''m.tflite'' True None (demo_world ''abcdefgh'') =
     (Inr ''ff'',
      \<lparr>files = [''m.h5'' \<mapsto> ''abcdefgh'', ''m.tflite'' \<mapsto> ''ff''],
       printed = [Msg ''Loading model from: m.h5'', Msg ''Optimization enabled'',
                  Msg ''Converting model...'', Msg ''Conversion complete!'',
                  Stat ''Original model size (MB)'' (8 / (1024 * 1024)),
                  Stat ''TFLite model size (MB)'' (2 / (1024 * 1024)),
                  Stat ''Compression (%)'' 75,
                  Msg ''Output saved to: m.tflite''],
       invoked = []\<rparr>)"
  by (simp add: convert_to_tflite_def demo_libs_def demo_world_def Let_def py_print_def
        converter_settings_def from_keras_model_def settings_lines_def conversion_statistics_def
        dtype_code_def)

lemma demo_main_no_test:
  "fst (main demo_libs (demo_args False) (demo_world ''abcdefgh'')) = Inr ()"
  "invoked (snd (main demo_libs (demo_args False) (demo_world ''abcdefgh''))) = []"
  "files (snd (main demo_libs (demo_args False) (demo_world ''abcdefgh''))) ''m.tflite'' = Some ''ff''"
  by (simp_all add: main_def demo_args_def demo_convert py_print_def)

lemma demo_interpreter: "interpreter demo_libs ''ff'' = Inr (demo_interp Float32 Float32)"
  by (simp add: demo_libs_def code_dtype_def)

lemma demo_test:
  "test_tflite_model demo_libs ''m.tflite'' None
         \<lparr>files = [''m.h5'' \<mapsto> ''abcdefgh'', ''m.tflite'' \<mapsto> ''ff''], printed = ps, invoked = []\<rparr>
     = (Inr \<lparr>shape = [1, 7], dtype = Float32, elems = [0, 0, 0, 0, 0, 0, 0]\<rparr>,
        \<lparr>files = [''m.h5'' \<mapsto> ''abcdefgh'', ''m.tflite'' \<mapsto> ''ff''],
         printed = ps @
           [Msg ''Testing TFLite model: m.tflite'', Msg ''Model Details:'',
            Shape_line ''Input shape'' [1, 4], Dtype_line ''Input type'' Float32,
            Shape_line ''Output shape'' [1, 12], Dtype_line ''Output type'' Float32,
            Msg ''Inference test successful!'', Shape_line ''Output shape'' [1, 7],
            Msg ''Output sample''],
         invoked = [\<lparr>shape = [1, 4], dtype = Float32, elems = [0, 0, 0, 0]\<rparr>]\<rparr>)"
  by (simp add: test_tflite_model_def demo_libs_def demo_interp_def Let_def py_print_def
        code_dtype_def)

lemma demo_main_test:
  "fst (main demo_libs (demo_args True) (demo_world ''abcdefgh'')) = Inr ()"
  "invoked (snd (main demo_libs (demo_args True) (demo_world ''abcdefgh'')))
     = [\<lparr>shape = [1, 4], dtype = Float32, elems = [0, 0, 0, 0]\<rparr>]"
  "files (snd (main demo_libs (demo_args True) (demo_world ''abcdefgh''))) ''m.tflite'' = Some ''ff''"
  by (simp_all add: main_def demo_args_def demo_convert demo_test py_print_def)

lemma demo_dtype_contract:
  "\<forall>c m a. convert demo_libs c m = Inr a \<longrightarrow>
     (\<exists>it. interpreter demo_libs a = Inr it
        \<and> dtype (input_details it) = inference_input_type c
        \<and> dtype (output_details it) = inference_output_type c)"
  by (auto simp add: demo_libs_def demo_interp_def code_dtype_code split: if_splits)

lemma demo_int8_contract:
  "\<forall>c m. supported_ops c = [TFLITE_BUILTINS_INT8] \<and> \<not> m \<longrightarrow> (\<exists>e. convert demo_libs c m = Inl e)"
  by (simp add: demo_libs_def)

lemma demo_int8_success:
  "convert_to_tflite demo_libs ''m.h5'' ''m.tflite'' True (Some ''int8'') (demo_world ''int8 only'')
     = (Inr ''ii'',
        \<lparr>files = [''m.h5'' \<mapsto> ''int8 only'', ''m.tflite'' \<mapsto> ''ii''],
         printed = [Msg ''Loading model from: m.h5'', Msg ''Optimization enabled'',
                    Msg ''INT8 quantization enabled'',
                    Msg ''Converting model...'', Msg ''Conversion complete!'',
                    Stat ''Original model size (MB)'' (9 / (1024 * 1024)),
                    Stat ''TFLite model size (MB)'' (2 / (1024 * 1024)),
                    Stat ''Compression (%)'' ((1 - 2 / 9) * 100),
                    Msg ''Output saved to: m.tflite''],
         invoked = []\<rparr>)"
  by (simp add: convert_to_tflite_def demo_libs_def demo_world_def Let_def py_print_def
        converter_settings_def from_keras_model_def settings_lines_def conversion_statistics_def
        dtype_code_def)

lemma ten_megabytes:
  "conversion_statistics 10485760 2621440 =
     Inr \<lparr>original_size = 10, tflite_size = 5 / 2, compression_ratio = 75\<rparr>"
  by (simp add: conversion_statistics_def Let_def)

lemma int8_settings:
  "inference_input_type (converter_settings optimize (Some ''int8'')) = Int8"
  "inference_output_type (converter_settings optimize (Some ''int8'')) = Int8"
  "supported_ops (converter_settings optimize (Some ''int8'')) = [TFLITE_BUILTINS_INT8]"
  by (simp_all add: converter_settings_def Let_def)

text \<open>
  C3, as stated, fails: for an original of 10 MB and a packaged artifact of 2.5 MB the
  value computed on line 59 is 75, a percentage, not the ratio 0.75.
\<close>

theorem conversion_statistics_is_percentage:
  "conversion_statistics 10485760 2621440 =
     Inr \<lparr>original_size = 10, tflite_size = 5 / 2, compression_ratio = 75\<rparr>
   \<and> compression_ratio \<lparr>original_size = 10, tflite_size = 5 / 2, compression_ratio = 75\<rparr> \<noteq> 3 / 4"
  using ten_megabytes by simp

text \<open>
  C3, amended. For a non-empty original the compression figure of lines 57 to 59 is the
  percentage \<open>(1 - packaged size / original size) * 100\<close> of the two byte sizes. Every
  conversion of a non-empty original model file that succeeds with an output path
  different from the model path prints that percentage, computed from the byte length of
  the packaged model and the byte size of the original file, and returns the packaged
  model. For 10 MB and 2.5 MB the figure is 75.
\<close>

theorem convert_to_tflite_compression:
  "(0 < st_size \<longrightarrow>
      (\<exists>st. conversion_statistics st_size len = Inr st
         \<and> compression_ratio st = (1 - real len / real st_size) * 100))
   \<and> (files w model_path = Some h5 \<and> load_model tf h5 = Inr m
        \<and> convert tf (converter_settings optimize quantize) m = Inr a
        \<and> output_path \<noteq> model_path \<and> h5 \<noteq> [] \<longrightarrow>
      (\<exists>w'. convert_to_tflite tf model_path output_path optimize quantize w = (Inr a, w')
         \<and> Stat ''Compression (%)'' ((1 - real (length a) / real (length h5)) * 100)
              \<in> set (printed w')))"
proof (intro conjI impI)
  assume "0 < st_size"
  then show "\<exists>st. conversion_statistics st_size len = Inr st
         \<and> compression_ratio st = (1 - real len / real st_size) * 100"
    by (simp add: conversion_statistics_value)
next
  assume "files w model_path = Some h5 \<and> load_model tf h5 = Inr m
        \<and> convert tf (converter_settings optimize quantize) m = Inr a
        \<and> output_path \<noteq> model_path \<and> h5 \<noteq> []"
  then show "\<exists>w'. convert_to_tflite tf model_path output_path optimize quantize w = (Inr a, w')
         \<and> Stat ''Compression (%)'' ((1 - real (length a) / real (length h5)) * 100)
              \<in> set (printed w')"
    using convert_to_tflite_success[of w model_path h5 tf m optimize quantize a output_path]
    by blast
qed

theorem convert_to_tflite_compression_witness:
  "(\<exists>st. conversion_statistics 10485760 2621440 = Inr st \<and> compression_ratio st = 75)
   \<and> (\<exists>w'. convert_to_tflite demo_libs ''m.h5'' ''m.tflite'' True None (demo_world ''abcdefgh'')
              = (Inr ''ff'', w')
          \<and> Stat ''Compression (%)'' 75 \<in> set (printed w'))"
proof -
  have a: "(0::nat) < 10485760" by simp
  have b: "files (demo_world ''abcdefgh'') ''m.h5'' = Some ''abcdefgh''
      \<and> load_model demo_libs ''abcdefgh'' = Inr False
      \<and> convert demo_libs (converter_settings True None) False = Inr ''ff''
      \<and> ''m.tflite'' \<noteq> ''m.h5'' \<and> ''abcdefgh'' \<noteq> []"
    by (simp add: demo_world_def demo_libs_def converter_settings_def from_keras_model_def
          dtype_code_def)
  have c: "(1 - real (length ''ff'') / real (length ''abcdefgh'')) * 100 = 75" by simp
  have d: "(1 - real (2621440::nat) / real (10485760::nat)) * 100 = 75" by simp
  show ?thesis
    using convert_to_tflite_compression[of 10485760 2621440 "demo_world ''abcdefgh''" "''m.h5''"
        "''abcdefgh''" demo_libs False True None "''ff''" "''m.tflite''"] a b
    unfolding c d by blast
qed

text \<open>
  C4, as stated, fails. Without \<open>--test\<close> the conversion writes the artifact and ends
  successfully with no inference run at all. With \<open>--test\<close> the interpreter here
  declares the output shape \<open>[1, 12]\<close> and returns a tensor of shape \<open>[1, 7]\<close>; the test
  returns that tensor, \<open>main\<close> ends successfully and the artifact stays in place.
\<close>

theorem main_skips_verification:
  "fst (main demo_libs (demo_args False) (demo_world ''abcdefgh'')) = Inr ()
   \<and> invoked (snd (main demo_libs (demo_args False) (demo_world ''abcdefgh''))) = []
   \<and> files (snd (main demo_libs (demo_args False) (demo_world ''abcdefgh''))) ''m.tflite''
       = Some ''ff''
   \<and> interpreter demo_libs ''ff'' = Inr (demo_interp Float32 Float32)
   \<and> shape (output_details (demo_interp Float32 Float32)) = [1, 12]
   \<and> map shape (invoked (snd (main demo_libs (demo_args True) (demo_world ''abcdefgh'')))) = [[1, 4]]
   \<and> fst (test_tflite_model demo_libs ''m.tflite'' None
            (snd (convert_to_tflite demo_libs ''m.h5'' ''m.tflite'' True None (demo_world ''abcdefgh''))))
       = Inr \<lparr>shape = [1, 7], dtype = Float32, elems = [0, 0, 0, 0, 0, 0, 0]\<rparr>
   \<and> fst (main demo_libs (demo_args True) (demo_world ''abcdefgh'')) = Inr ()
   \<and> files (snd (main demo_libs (demo_args True) (demo_world ''abcdefgh''))) ''m.tflite''
       = Some ''ff''"
  by (simp add: demo_main_no_test demo_main_test demo_interpreter demo_convert demo_test)
     (simp add: demo_interp_def)

text \<open>
  C4, amended. A verification inference is run only when \<open>--test\<close> is given, and only
  after the packaged artifact has been written: without the flag \<open>main\<close> runs no
  inference. With the flag, after a successful conversion, the interpreter of the
  artifact is offered a synthetic input of its declared input shape (and of its declared
  element type when that is \<open>float32\<close>); if the interpreter accepts the input, exactly one
  inference is run, on that input. When the inference answers a tensor with at least two
  axes and a non-empty first one, the test returns that tensor and \<open>main\<close> ends
  successfully, having printed the tensor's shape; the shape is not compared with the
  declared output shape, so a difference between the two is not a failure. Whatever the
  test does, the files written by the conversion, the artifact among them, stay as they
  are.
\<close>

theorem main_verification_optional:
  "(\<not> arg_test a \<longrightarrow> invoked (snd (main tf a w)) = invoked w)
   \<and> (arg_test a
        \<and> convert_to_tflite tf (arg_model a) (arg_output a) (arg_optimize a) (arg_quantize a) w
            = (Inr art, w1)
        \<and> interpreter tf art = Inr it
        \<and> set_tensor it (synthetic_input tf it) = Inr () \<longrightarrow>
        invoked (snd (main tf a w)) = invoked w @ [synthetic_input tf it])
   \<and> shape (synthetic_input tf it) = shape (input_details it)
   \<and> (dtype (input_details it) = Float32 \<longrightarrow>
        dtype (synthetic_input tf it) = dtype (input_details it))
   \<and> (arg_test a
        \<and> convert_to_tflite tf (arg_model a) (arg_output a) (arg_optimize a) (arg_quantize a) w
            = (Inr art, w1)
        \<and> interpreter tf art = Inr it
        \<and> set_tensor it (synthetic_input tf it) = Inr ()
        \<and> invoke it (synthetic_input tf it) = Inr out
        \<and> 2 \<le> length (shape out) \<and> hd (shape out) \<noteq> 0 \<longrightarrow>
        (\<exists>w2. test_tflite_model tf (arg_output a) None w1 = (Inr out, w2))
        \<and> fst (main tf a w) = Inr ()
        \<and> Shape_line ''Output shape'' (shape out) \<in> set (printed (snd (main tf a w))))
   \<and> (convert_to_tflite tf (arg_model a) (arg_output a) (arg_optimize a) (arg_quantize a) w
        = (Inr art, w1) \<longrightarrow>
        files (snd (main tf a w)) = files w1 \<and> files w1 (arg_output a) = Some art)"
proof (intro conjI impI)
  assume "\<not> arg_test a"
  then show "invoked (snd (main tf a w)) = invoked w" by (rule main_without_test)
next
  assume "arg_test a
        \<and> convert_to_tflite tf (arg_model a) (arg_output a) (arg_optimize a) (arg_quantize a) w
            = (Inr art, w1)
        \<and> interpreter tf art = Inr it
        \<and> set_tensor it (synthetic_input tf it) = Inr ()"
  then show "invoked (snd (main tf a w)) = invoked w @ [synthetic_input tf it]"
    using main_with_test[of a tf w art w1 it] by blast
next
  show "shape (synthetic_input tf it) = shape (input_details it)"
    by (simp add: synthetic_input_def)
next
  assume "dtype (input_details it) = Float32"
  then show "dtype (synthetic_input tf it) = dtype (input_details it)"
    by (simp add: synthetic_input_def)
next
  assume h: "arg_test a
        \<and> convert_to_tflite tf (arg_model a) (arg_output a) (arg_optimize a) (arg_quantize a) w
            = (Inr art, w1)
        \<and> interpreter tf art = Inr it
        \<and> set_tensor it (synthetic_input tf it) = Inr ()
        \<and> invoke it (synthetic_input tf it) = Inr out
        \<and> 2 \<le> length (shape out) \<and> hd (shape out) \<noteq> 0"
  then have c: "convert_to_tflite tf (arg_model a) (arg_output a) (arg_optimize a) (arg_quantize a) w
            = (Inr art, w1)"
    by blast
  have f: "files w1 (arg_output a) = Some art"
    using convert_to_tflite_Inr[OF c] by auto
  show "\<exists>w2. test_tflite_model tf (arg_output a) None w1 = (Inr out, w2)"
    using h test_tflite_model_returns[of w1 "arg_output a" art tf it out] f by blast
  show "fst (main tf a w) = Inr ()"
    using h main_test_succeeds(1)[of a tf w art w1 it out] by blast
  show "Shape_line ''Output shape'' (shape out) \<in> set (printed (snd (main tf a w)))"
    using h main_test_succeeds(2)[of a tf w art w1 it out] by blast
next
  assume c: "convert_to_tflite tf (arg_model a) (arg_output a) (arg_optimize a) (arg_quantize a) w
        = (Inr art, w1)"
  then show "files (snd (main tf a w)) = files w1" by (rule main_keeps_artifact)
  show "files w1 (arg_output a) = Some art"
    using convert_to_tflite_Inr[OF c] by auto
qed

theorem main_verification_optional_witness:
  "invoked (snd (main demo_libs (demo_args False) (demo_world ''abcdefgh''))) = []
   \<and> invoked (snd (main demo_libs (demo_args True) (demo_world ''abcdefgh'')))
       = [synthetic_input demo_libs (demo_interp Float32 Float32)]
   \<and> dtype (synthetic_input demo_libs (demo_interp Float32 Float32)) = Float32
   \<and> fst (main demo_libs (demo_args True) (demo_world ''abcdefgh'')) = Inr ()
   \<and> Shape_line ''Output shape'' [1, 7]
       \<in> set (printed (snd (main demo_libs (demo_args True) (demo_world ''abcdefgh''))))
   \<and> shape (output_details (demo_interp Float32 Float32)) = [1, 12]
   \<and> files (snd (main demo_libs (demo_args True) (demo_world ''abcdefgh''))) ''m.tflite''
       = Some ''ff''"
proof -
  define w1 where "w1 = snd (convert_to_tflite demo_libs ''m.h5'' ''m.tflite'' True None (demo_world ''abcdefgh''))"
  define out where "out = \<lparr>shape = [1::nat, 7], dtype = Float32, elems = [0, 0, 0, 0, 0, 0, 0::real]\<rparr>"
  define it where "it = demo_interp Float32 Float32"
  have conv: "convert_to_tflite demo_libs ''m.h5'' ''m.tflite'' True None (demo_world ''abcdefgh'')
      = (Inr ''ff'', w1)"
    unfolding w1_def by (simp add: demo_convert)
  have na: "\<not> arg_test (demo_args False)" "arg_test (demo_args True)"
    by (simp_all add: demo_args_def)
  have ar: "arg_model (demo_args t) = ''m.h5''" "arg_output (demo_args t) = ''m.tflite''"
    "arg_optimize (demo_args t) = True" "arg_quantize (demo_args t) = None" for t
    by (simp_all add: demo_args_def)
  have inv0: "invoked (demo_world ''abcdefgh'') = []" by (simp add: demo_world_def)
  have ip: "interpreter demo_libs ''ff'' = Inr it"
    unfolding it_def by (rule demo_interpreter)
  have st: "set_tensor it (synthetic_input demo_libs it) = Inr ()"
    unfolding it_def by (simp add: demo_interp_def synthetic_input_def)
  have rn: "invoke it (synthetic_input demo_libs it) = Inr out"
    unfolding it_def out_def by (simp add: demo_interp_def)
  have sh: "2 \<le> length (shape out) \<and> hd (shape out) \<noteq> 0" "shape out = [1, 7]"
    unfolding out_def by simp_all
  have dt: "dtype (input_details it) = Float32" "shape (output_details it) = [1, 12]"
    unfolding it_def by (simp_all add: demo_interp_def)
  note t0 = main_verification_optional[of "demo_args False" demo_libs "demo_world ''abcdefgh''"
      "''ff''" w1 it out]
  note t2 = main_verification_optional[of "demo_args True" demo_libs "demo_world ''abcdefgh''"
      "''ff''" w1 it out]
  have a: "invoked (snd (main demo_libs (demo_args False) (demo_world ''abcdefgh''))) = []"
    using t0 na(1) inv0 by simp
  have b: "invoked (snd (main demo_libs (demo_args True) (demo_world ''abcdefgh'')))
       = [synthetic_input demo_libs it]"
    using t2 na(2) conv ip st inv0 unfolding ar by simp
  have c: "dtype (synthetic_input demo_libs it) = Float32"
    using t2 dt(1) by simp
  have d: "fst (main demo_libs (demo_args True) (demo_world ''abcdefgh'')) = Inr ()"
    "Shape_line ''Output shape'' (shape out)
       \<in> set (printed (snd (main demo_libs (demo_args True) (demo_world ''abcdefgh''))))"
    using t2 na(2) conv ip st rn sh(1) unfolding ar by blast+
  have e: "files (snd (main demo_libs (demo_args True) (demo_world ''abcdefgh''))) ''m.tflite''
       = Some ''ff''"
    using t2 conv unfolding ar by simp
  show ?thesis using a b c d e dt(2) unfolding it_def sh(2) by blast
qed

text \<open>
  C8. When \<open>quantize\<close> is \<open>int8\<close>, \<open>convert_to_tflite\<close> sets the converter to the input and
  output types \<open>int8\<close> and to the int8 builtins as its only supported operations, with no
  other operation set to fall back on. Whenever the call succeeds, what it returns and
  what it has written at the output path is the product of \<open>converter.convert()\<close> under
  exactly these settings, and it does succeed when the converter does (for a non-empty
  model file and an output path of its own). A failure of \<open>converter.convert()\<close> is the
  failure of the whole call, with no second attempt under other settings, and leaves the
  file system as it was. So with a converter that honours its settings (the artifact
  declares the requested element types, and a model with an operation outside pure
  integer inference is refused), the file at the output path after a successful int8
  conversion declares 8-bit integer input and output tensors, and a model with an
  unsupported operation makes the conversion fail without writing a file.
\<close>

theorem int8_conversion:
  "quantize = Some ''int8'' \<longrightarrow>
     inference_input_type (converter_settings optimize quantize) = Int8
     \<and> inference_output_type (converter_settings optimize quantize) = Int8
     \<and> supported_ops (converter_settings optimize quantize) = [TFLITE_BUILTINS_INT8]
     \<and> (\<forall>art w'. convert_to_tflite tf model_path output_path optimize quantize w = (Inr art, w') \<longrightarrow>
          (\<exists>f md. files w model_path = Some f \<and> load_model tf f = Inr md
             \<and> convert tf (converter_settings optimize quantize) md = Inr art)
          \<and> files w' = (files w)(output_path \<mapsto> art))
     \<and> (files w model_path = Some h5 \<and> load_model tf h5 = Inr m
          \<and> convert tf (converter_settings optimize quantize) m = Inr a
          \<and> output_path \<noteq> model_path \<and> h5 \<noteq> [] \<longrightarrow>
          (\<exists>w'. convert_to_tflite tf model_path output_path optimize quantize w = (Inr a, w')
             \<and> files w' = (files w)(output_path \<mapsto> a)))
     \<and> (files w model_path = Some h5 \<and> load_model tf h5 = Inr m
          \<and> convert tf (converter_settings optimize quantize) m = Inl e \<longrightarrow>
          (\<exists>w'. convert_to_tflite tf model_path output_path optimize quantize w = (Inl e, w')
             \<and> files w' = files w))
     \<and> ((\<forall>c md b. convert tf c md = Inr b \<longrightarrow>
             (\<exists>it. interpreter tf b = Inr it
                \<and> dtype (input_details it) = inference_input_type c
                \<and> dtype (output_details it) = inference_output_type c))
          \<and> convert_to_tflite tf model_path output_path optimize quantize w = (Inr a, w2) \<longrightarrow>
          files w2 output_path = Some a
          \<and> (\<exists>it. interpreter tf a = Inr it
               \<and> dtype (input_details it) = Int8 \<and> dtype (output_details it) = Int8))
     \<and> ((\<forall>c md. supported_ops c = [TFLITE_BUILTINS_INT8] \<and> \<not> int8_only md \<longrightarrow>
             (\<exists>e. convert tf c md = Inl e))
          \<and> files w model_path = Some h5 \<and> load_model tf h5 = Inr m \<and> \<not> int8_only m \<longrightarrow>
          (\<exists>e w'. convert_to_tflite tf model_path output_path optimize quantize w = (Inl e, w')
             \<and> files w' = files w))"
proof (intro impI conjI allI)
  assume q: "quantize = Some ''int8''"
  show "inference_input_type (converter_settings optimize quantize) = Int8"
    unfolding q by (rule int8_settings)
  show "inference_output_type (converter_settings optimize quantize) = Int8"
    unfolding q by (rule int8_settings)
  show ops: "supported_ops (converter_settings optimize quantize) = [TFLITE_BUILTINS_INT8]"
    unfolding q by (rule int8_settings)
  {
    fix art w'
    assume c: "convert_to_tflite tf model_path output_path optimize quantize w = (Inr art, w')"
    show "\<exists>f md. files w model_path = Some f \<and> load_model tf f = Inr md
             \<and> convert tf (converter_settings optimize quantize) md = Inr art"
      using convert_to_tflite_Inr[OF c] by blast
    show "files w' = (files w)(output_path \<mapsto> art)"
      using convert_to_tflite_Inr[OF c] by blast
  next
    assume "files w model_path = Some h5 \<and> load_model tf h5 = Inr m
          \<and> convert tf (converter_settings optimize quantize) m = Inr a
          \<and> output_path \<noteq> model_path \<and> h5 \<noteq> []"
    then show "\<exists>w'. convert_to_tflite tf model_path output_path optimize quantize w = (Inr a, w')
             \<and> files w' = (files w)(output_path \<mapsto> a)"
      using convert_to_tflite_success[of w model_path h5 tf m optimize quantize a output_path]
      by blast
  next
    assume "files w model_path = Some h5 \<and> load_model tf h5 = Inr m
          \<and> convert tf (converter_settings optimize quantize) m = Inl e"
    then show "\<exists>w'. convert_to_tflite tf model_path output_path optimize quantize w = (Inl e, w')
             \<and> files w' = files w"
      using convert_to_tflite_converter_failure[of w model_path h5 tf m optimize quantize e output_path]
      by blast
  next
    assume h: "(\<forall>c md b. convert tf c md = Inr b \<longrightarrow>
             (\<exists>it. interpreter tf b = Inr it
                \<and> dtype (input_details it) = inference_input_type c
                \<and> dtype (output_details it) = inference_output_type c))
          \<and> convert_to_tflite tf model_path output_path optimize quantize w = (Inr a, w2)"
    then obtain h5' m' where cv: "convert tf (converter_settings optimize quantize) m' = Inr a"
      and fl: "files w2 = (files w)(output_path \<mapsto> a)"
      using convert_to_tflite_Inr[of tf model_path output_path optimize quantize w a w2] by blast
    show "files w2 output_path = Some a" unfolding fl by simp
    from h cv obtain it where "interpreter tf a = Inr it"
      "dtype (input_details it) = inference_input_type (converter_settings optimize quantize)"
      "dtype (output_details it) = inference_output_type (converter_settings optimize quantize)"
      by blast
    then show "\<exists>it. interpreter tf a = Inr it
             \<and> dtype (input_details it) = Int8 \<and> dtype (output_details it) = Int8"
      unfolding q int8_settings by blast
  next
    assume h: "(\<forall>c md. supported_ops c = [TFLITE_BUILTINS_INT8] \<and> \<not> int8_only md \<longrightarrow>
             (\<exists>e. convert tf c md = Inl e))
          \<and> files w model_path = Some h5 \<and> load_model tf h5 = Inr m \<and> \<not> int8_only m"
    then obtain e' where "convert tf (converter_settings optimize quantize) m = Inl e'"
      using ops by blast
    then show "\<exists>e w'. convert_to_tflite tf model_path output_path optimize quantize w = (Inl e, w')
             \<and> files w' = files w"
      using h convert_to_tflite_converter_failure[of w model_path h5 tf m optimize quantize e' output_path]
      by blast
  }
qed

theorem int8_conversion_witness:
  "inference_input_type (converter_settings True (Some ''int8'')) = Int8
   \<and> inference_output_type (converter_settings True (Some ''int8'')) = Int8
   \<and> supported_ops (converter_settings True (Some ''int8'')) = [TFLITE_BUILTINS_INT8]
   \<and> (\<exists>e w'. convert_to_tflite demo_libs ''m.h5'' ''m.tflite'' True (Some ''int8'')
                 (demo_world ''abcdefgh'') = (Inl e, w')
          \<and> files w' = files (demo_world ''abcdefgh''))
   \<and> (\<exists>w'. convert_to_tflite demo_libs ''m.h5'' ''m.tflite'' True (Some ''int8'')
              (demo_world ''int8 only'') = (Inr ''ii'', w')
          \<and> files w' = (files (demo_world ''int8 only''))(''m.tflite'' \<mapsto> ''ii'')
          \<and> files w' ''m.tflite'' = Some ''ii'')
   \<and> (\<exists>it. interpreter demo_libs ''ii'' = Inr it
          \<and> dtype (input_details it) = Int8 \<and> dtype (output_details it) = Int8)"
proof -
  define w2 where "w2 = snd (convert_to_tflite demo_libs ''m.h5'' ''m.tflite'' True (Some ''int8'')
            (demo_world ''int8 only''))"
  have ok: "convert_to_tflite demo_libs ''m.h5'' ''m.tflite'' True (Some ''int8'')
            (demo_world ''int8 only'') = (Inr ''ii'', w2)"
    unfolding w2_def by (simp add: demo_int8_success)
  have pre: "files (demo_world ''abcdefgh'') ''m.h5'' = Some ''abcdefgh''
      \<and> load_model demo_libs ''abcdefgh'' = Inr False \<and> \<not> (\<lambda>m. m) False"
    by (simp add: demo_world_def demo_libs_def)
  have pre2: "files (demo_world ''int8 only'') ''m.h5'' = Some ''int8 only''
      \<and> load_model demo_libs ''int8 only'' = Inr True
      \<and> convert demo_libs (converter_settings True (Some ''int8'')) True = Inr ''ii''
      \<and> ''m.tflite'' \<noteq> ''m.h5'' \<and> ''int8 only'' \<noteq> []"
    by (simp add: demo_world_def demo_libs_def converter_settings_def from_keras_model_def
          dtype_code_def)
  have q: "Some ''int8'' = Some ''int8''" ..
  note t = int8_conversion[where quantize = "Some ''int8''" and optimize = True
      and w = "demo_world ''abcdefgh''" and model_path = "''m.h5''" and ?h5.0 = "''abcdefgh''"
      and tf = demo_libs and m = False and output_path = "''m.tflite''"
      and int8_only = "\<lambda>m. m", THEN mp, OF q]
  note s = int8_conversion[where quantize = "Some ''int8''" and optimize = True
      and w = "demo_world ''int8 only''" and model_path = "''m.h5''" and ?h5.0 = "''int8 only''"
      and tf = demo_libs and m = True and output_path = "''m.tflite''" and a = "''ii''"
      and ?w2.0 = w2, THEN mp, OF q]
  have a: "inference_input_type (converter_settings True (Some ''int8'')) = Int8"
    "inference_output_type (converter_settings True (Some ''int8'')) = Int8"
    "supported_ops (converter_settings True (Some ''int8'')) = [TFLITE_BUILTINS_INT8]"
    using t by blast+
  have b: "\<exists>e w'. convert_to_tflite demo_libs ''m.h5'' ''m.tflite'' True (Some ''int8'')
                 (demo_world ''abcdefgh'') = (Inl e, w')
          \<and> files w' = files (demo_world ''abcdefgh'')"
    using t demo_int8_contract pre by blast
  have c1: "\<exists>w'. convert_to_tflite demo_libs ''m.h5'' ''m.tflite'' True (Some ''int8'')
              (demo_world ''int8 only'') = (Inr ''ii'', w')
          \<and> files w' = (files (demo_world ''int8 only''))(''m.tflite'' \<mapsto> ''ii'')"
    using s pre2 by blast
  have c2: "files w2 ''m.tflite'' = Some ''ii''"
    "\<exists>it. interpreter demo_libs ''ii'' = Inr it
          \<and> dtype (input_details it) = Int8 \<and> dtype (output_details it) = Int8"
    using s demo_dtype_contract ok by blast+
  have c3: "\<exists>w'. convert_to_tflite demo_libs ''m.h5'' ''m.tflite'' True (Some ''int8'')
              (demo_world ''int8 only'') = (Inr ''ii'', w')
          \<and> files w' = (files (demo_world ''int8 only''))(''m.tflite'' \<mapsto> ''ii'')
          \<and> files w' ''m.tflite'' = Some ''ii''"
    using c1 c2(1) ok by auto
  show ?thesis using a b c3 c2(2) by blast
qed

end
